theory Spec2Isabelle
  imports Complex_Main "HOL-Library.Word"
begin

section \<open>Lifetimes: staged initialisation with rollback (lepong.cpp)\<close>

text \<open>
  A \<open>Lifetime\<close> pairs an initialisation procedure \<open>bool (*)()\<close> with a cleanup procedure
  \<open>void (*)()\<close>.  Both act on process-wide state, which the model passes explicitly as a
  world \<open>'w\<close>.  Every call through \<open>lifetimes[i].Init()\<close> and \<open>lifetimes[i].Cleanup()\<close> is
  recorded, in order, in a list of calls that travels with the world; the record of a call to
  \<open>Init\<close> keeps the value it returned.
\<close>

record 'w Lifetime =
  mInit :: "'w \<Rightarrow> bool \<times> 'w"
  mCleanup :: "'w \<Rightarrow> 'w"

datatype call = InitCall nat bool | CleanupCall nat

type_synonym 'w traced = "'w \<times> call list"

definition Lifetime_Init :: "'w Lifetime list \<Rightarrow> nat \<Rightarrow> 'w traced \<Rightarrow> bool \<times> 'w traced" where
  "Lifetime_Init lifetimes i st =
     (case st of (w, tr) \<Rightarrow>
        (case mInit (lifetimes ! i) w of (ok, w') \<Rightarrow> (ok, (w', tr @ [InitCall i ok]))))"

definition Lifetime_Cleanup :: "'w Lifetime list \<Rightarrow> nat \<Rightarrow> 'w traced \<Rightarrow> 'w traced" where
  "Lifetime_Cleanup lifetimes i st =
     (case st of (w, tr) \<Rightarrow> (mCleanup (lifetimes ! i) w, tr @ [CleanupCall i]))"

text \<open>
  \<open>static_cast<int>(index)\<close> for a 32-bit \<open>unsigned\<close>: the value is read modulo \<open>2^32\<close> as a
  two's complement \<open>int\<close>.
\<close>

definition static_cast_int :: "nat \<Rightarrow> int" where
  "static_cast_int u =
     (if u mod 2 ^ 32 < 2 ^ 31 then int (u mod 2 ^ 32) else int (u mod 2 ^ 32) - 2 ^ 32)"

text \<open>
  The loop of \<open>CleanupItemsStartingAt\<close>: \<open>for (auto i = static_cast<int>(index) - 1; i >= 0; --i)\<close>.
  Both callers pass an index that is at most the number of items, so \<open>lifetimes[i]\<close> is read
  inside the array.
\<close>

function CleanupItemsLoop :: "'w Lifetime list \<Rightarrow> int \<Rightarrow> 'w traced \<Rightarrow> 'w traced" where
  "CleanupItemsLoop lifetimes i st =
     (if 0 \<le> i then CleanupItemsLoop lifetimes (i - 1) (Lifetime_Cleanup lifetimes (nat i) st)
      else st)"
  by pat_completeness auto
termination
  by (relation "measure (\<lambda>(lifetimes, i, st). nat (i + 1))") auto

definition CleanupItemsStartingAt :: "'w Lifetime list \<Rightarrow> nat \<Rightarrow> 'w traced \<Rightarrow> 'w traced" where
  "CleanupItemsStartingAt lifetimes index st =
     CleanupItemsLoop lifetimes (static_cast_int index - 1) st"

text \<open>
  The loop of \<open>TryInitItems\<close>: \<open>for (unsigned i = 0; succeeded && i < NumItems; ++i)\<close>.  The
  counter is a natural number here; the theorems below are stated for arrays short enough
  that \<open>++i\<close> does not wrap (fewer than \<open>2^32\<close> items) and, where \<open>CleanupItemsStartingAt\<close>
  is called, that the cast to \<open>int\<close> does not wrap either (fewer than \<open>2^31\<close> items).  The
  arrays of lepong.cpp have two to five items.
\<close>

function TryInitItemsLoop ::
  "'w Lifetime list \<Rightarrow> nat \<Rightarrow> bool \<Rightarrow> 'w traced \<Rightarrow> bool \<times> 'w traced" where
  "TryInitItemsLoop lifetimes i succeeded st =
     (if succeeded \<and> i < length lifetimes then
        (case Lifetime_Init lifetimes i st of
           (ok, st1) \<Rightarrow>
             TryInitItemsLoop lifetimes (i + 1) ok
               (if \<not> ok then CleanupItemsStartingAt lifetimes i st1 else st1))
      else (succeeded, st))"
  by pat_completeness auto
termination
  by (relation "measure (\<lambda>(lifetimes, i, succeeded, st). length lifetimes - i)") auto

definition TryInitItems :: "'w Lifetime list \<Rightarrow> 'w traced \<Rightarrow> bool \<times> 'w traced" where
  "TryInitItems lifetimes st = TryInitItemsLoop lifetimes 0 True st"

definition CleanupItems :: "'w Lifetime list \<Rightarrow> 'w traced \<Rightarrow> 'w traced" where
  "CleanupItems itemLifetimes st =
     CleanupItemsStartingAt itemLifetimes (length itemLifetimes) st"

text \<open>
  The world in which item \<open>i\<close> is initialised when every earlier item succeeded: the
  initialisations of the items \<open>0, ..., i - 1\<close> applied in order.
\<close>

primrec initWorld :: "'w Lifetime list \<Rightarrow> nat \<Rightarrow> 'w \<Rightarrow> 'w" where
  "initWorld lifetimes 0 w = w"
| "initWorld lifetimes (Suc i) w = snd (mInit (lifetimes ! i) (initWorld lifetimes i w))"

text \<open>The world after the cleanups of the items \<open>j - 1\<close> down to \<open>0\<close>.\<close>

primrec cleanupWorld :: "'w Lifetime list \<Rightarrow> nat \<Rightarrow> 'w \<Rightarrow> 'w" where
  "cleanupWorld lifetimes 0 w = w"
| "cleanupWorld lifetimes (Suc j) w = cleanupWorld lifetimes j (mCleanup (lifetimes ! j) w)"

text \<open>Whether item \<open>i\<close> initialises successfully in that world.\<close>

definition initOk :: "'w Lifetime list \<Rightarrow> nat \<Rightarrow> 'w \<Rightarrow> bool" where
  "initOk lifetimes i w = fst (mInit (lifetimes ! i) (initWorld lifetimes i w))"

section \<open>Vectors and game objects\<close>

text \<open>
  \<open>Vector2f\<close> and \<open>Vector2i\<close> are pairs of \<open>float\<close> and of \<open>int\<close> coordinates.  A \<open>float\<close> is
  modelled by a real number: rounding, infinities and NaN are not part of the model.
\<close>

record 'a Vector2 =
  x :: 'a
  y :: 'a

type_synonym Vector2f = "real Vector2"
type_synonym Vector2i = "int Vector2"

text \<open>
  Modelled from the spec: the vector operators of \<open>lepong/Math/Math.h\<close> are not under src.
  \<open>a + b\<close> and \<open>v * s\<close> are taken componentwise.
\<close>

definition Vector2_add :: "Vector2f \<Rightarrow> Vector2f \<Rightarrow> Vector2f" where
  "Vector2_add a b = \<lparr>x = x a + x b, y = y a + y b\<rparr>"

definition Vector2_scale :: "Vector2f \<Rightarrow> real \<Rightarrow> Vector2f" where
  "Vector2_scale v s = \<lparr>x = x v * s, y = y v * s\<rparr>"

text \<open>
  Modelled from the spec: \<open>Normalize\<close> of \<open>lepong/Math/Math.h\<close> is not under src.  The vector
  is divided by its Euclidean length.  \<open>LaunchBall\<close>, its only caller, passes a vector of two
  signs, never the zero vector.
\<close>

definition Normalize :: "Vector2f \<Rightarrow> Vector2f" where
  "Normalize v =
     (let len = sqrt (x v * x v + y v * y v) in \<lparr>x = x v / len, y = y v / len\<rparr>)"

text \<open>
  Modelled from the spec: \<open>RandomSignFloat\<close> of \<open>lepong/Math/Math.h\<close> is not under src.  It
  returns \<open>+1\<close> or \<open>-1\<close>; which of the two is the random generator's choice, an input of
  the model.
\<close>

definition RandomSignFloat :: "bool \<Rightarrow> real" where
  "RandomSignFloat positive = (if positive then 1 else - 1)"

record GameObject =
  position :: Vector2f
  moveDirection :: Vector2f
  moveSpeed :: real

text \<open>
  Modelled from the spec: \<open>GameObject::Update\<close> (GameObject.cpp) is not under src.
  \<open>position += moveDirection * moveSpeed * delta\<close>.
\<close>

definition GameObject_Update :: "real \<Rightarrow> 'a GameObject_scheme \<Rightarrow> 'a GameObject_scheme" where
  "GameObject_Update delta obj =
     obj\<lparr>position :=
       Vector2_add (position obj)
         (Vector2_scale (Vector2_scale (moveDirection obj) (moveSpeed obj)) delta)\<rparr>"

subsection \<open>Paddles (Game/Paddle.cpp)\<close>

text \<open>
  The field \<open>size\<close> of the source is \<open>sizeV\<close> here.  Paddle.cpp names the facing \<open>front\<close>; the
  header declares it as \<open>forward\<close>.
\<close>

record Paddle = GameObject +
  sizeV :: Vector2f
  front :: real

text \<open>
  The second parameter is the position saved before the update; Paddle.cpp names it
  \<open>postUpdatePosition\<close>.
\<close>

definition Paddle_CollideAgainstTerrain :: "Vector2i \<Rightarrow> Vector2f \<Rightarrow> Paddle \<Rightarrow> Paddle" where
  "Paddle_CollideAgainstTerrain winSize postUpdatePosition p =
     (let kMinTerrainOffset = y (sizeV p) * 0.1;
          kCollidesTop =
            (y (position p) + kMinTerrainOffset > real_of_int (y winSize) - y (sizeV p) / 2.0);
          kCollidesBottom = (y (position p) - kMinTerrainOffset < y (sizeV p) / 2.0)
      in if kCollidesTop \<or> kCollidesBottom then p\<lparr>position := postUpdatePosition\<rparr> else p)"

definition Paddle_Update :: "real \<Rightarrow> Vector2i \<Rightarrow> Paddle \<Rightarrow> Paddle" where
  "Paddle_Update delta winSize p =
     (let kPostUpdatePosition = position p
      in Paddle_CollideAgainstTerrain winSize kPostUpdatePosition (GameObject_Update delta p))"

definition Paddle_Reset :: "Vector2i \<Rightarrow> Paddle \<Rightarrow> Paddle" where
  "Paddle_Reset winSize p =
     p\<lparr>position := (position p)\<lparr>y := real_of_int (y winSize) / 2.0\<rparr>,
       moveSpeed := 0.0,
       moveDirection := \<lparr>x = 0.0, y = 0.0\<rparr>\<rparr>"

text \<open>
  The handlers \<open>OnMoveUpPressed\<close>, \<open>OnMoveDownPressed\<close>, \<open>OnMoveUpReleased\<close> and
  \<open>OnMoveDownReleased\<close> are declared in Paddle.h; their definitions are not under src.  They
  are members of one paddle, and are parameters of the model.
\<close>

record PaddleMembers =
  Paddle_OnMoveUpPressed :: "Paddle \<Rightarrow> Paddle"
  Paddle_OnMoveDownPressed :: "Paddle \<Rightarrow> Paddle"
  Paddle_OnMoveUpReleased :: "Paddle \<Rightarrow> Paddle"
  Paddle_OnMoveDownReleased :: "Paddle \<Rightarrow> Paddle"

subsection \<open>The ball\<close>

record Ball = GameObject +
  radius :: real

datatype Side = Side_None | Side_Left | Side_Right

text \<open>
  Modelled from the spec: the declaration of \<open>enum class Side\<close> is not under src.
  \<open>UpdateScores\<close> indexes the two scores with \<open>1u - static_cast<unsigned>(lostSide)\<close> and
  documents the winner as the player opposite to the lost side, so \<open>Left\<close> is 0 and \<open>Right\<close>
  is 1; \<open>None\<close> gets the next value.
\<close>

fun Side_unsigned :: "Side \<Rightarrow> 32 word" where
  "Side_unsigned Side_Left = 0"
| "Side_unsigned Side_Right = 1"
| "Side_unsigned Side_None = 2"

text \<open>
  The member functions of \<open>Ball\<close> that lepong.cpp calls, and the constant
  \<open>Ball::skDefaultMoveSpeed\<close>, are not under src (Ball.h, Ball.cpp).  They are parameters of
  the model: each reads and writes the ball it is called on, \<open>CollideWith\<close> also reads a
  paddle and returns whether a collision was resolved.
\<close>

record BallMembers =
  Ball_skDefaultMoveSpeed :: real
  Ball_Update :: "real \<Rightarrow> Ball \<Rightarrow> Ball"
  Ball_CollideWithTerrain :: "Vector2i \<Rightarrow> Ball \<Rightarrow> Ball"
  Ball_CollideWith :: "Paddle \<Rightarrow> Ball \<Rightarrow> bool \<times> Ball"
  Ball_GetTouchingSide :: "Vector2i \<Rightarrow> Ball \<Rightarrow> Side"
  Ball_Reset :: "Vector2i \<Rightarrow> Ball \<Rightarrow> Ball"

section \<open>The game (lepong.cpp)\<close>

text \<open>
  The statics of lepong.cpp are the fields of one state.  \<open>world\<close> is the state of the
  systems and resources behind the lifetime procedures, \<open>calls\<close> the record of the calls
  made through the lifetime lists.  \<open>events\<close> records, in order, the steps of the frame loop
  that the properties below speak about; no function of the model reads it.
\<close>

datatype event =
    BeginRunCalled
  | PollEventsCalled bool
  | UpdateCalled
  | SideCollisionChecked
  | GameStateReset
  | RenderCalled
  | FinishRunCalled

record 'w State =
  sInitialized :: bool
  sRunning :: bool
  sPlaying :: bool
  sPlayerScores :: "32 word list"
  sBall :: Ball
  sPaddle1 :: Paddle
  sPaddle2 :: Paddle
  sLastTime :: real
  world :: 'w
  calls :: "call list"
  events :: "event list"

definition skWinSize :: Vector2i where
  "skWinSize = \<lparr>x = 1280, y = 720\<rparr>"

definition addEvent :: "event \<Rightarrow> 'w State \<Rightarrow> 'w State" where
  "addEvent e s = s\<lparr>events := events s @ [e]\<rparr>"

subsection \<open>Key events\<close>

text \<open>The virtual key codes of the Windows API, and the character codes of W and S.\<close>

definition VK_SPACE :: int where "VK_SPACE = 0x20"
definition skP2Up :: int where "skP2Up = 0x26"
definition skP2Down :: int where "skP2Down = 0x28"
definition skP1Up :: int where "skP1Up = 0x57"
definition skP1Down :: int where "skP1Down = 0x53"

definition OnKeyUp :: "PaddleMembers \<Rightarrow> int \<Rightarrow> 'w State \<Rightarrow> 'w State" where
  "OnKeyUp P key s =
     (if key = skP2Up then s\<lparr>sPaddle2 := Paddle_OnMoveUpReleased P (sPaddle2 s)\<rparr>
      else if key = skP2Down then s\<lparr>sPaddle2 := Paddle_OnMoveDownReleased P (sPaddle2 s)\<rparr>
      else if key = skP1Up then s\<lparr>sPaddle1 := Paddle_OnMoveUpReleased P (sPaddle1 s)\<rparr>
      else if key = skP1Down then s\<lparr>sPaddle1 := Paddle_OnMoveDownReleased P (sPaddle1 s)\<rparr>
      else s)"

definition OnKeyDown :: "PaddleMembers \<Rightarrow> int \<Rightarrow> 'w State \<Rightarrow> 'w State" where
  "OnKeyDown P key s =
     (if key = skP2Up then s\<lparr>sPaddle2 := Paddle_OnMoveUpPressed P (sPaddle2 s)\<rparr>
      else if key = skP2Down then s\<lparr>sPaddle2 := Paddle_OnMoveDownPressed P (sPaddle2 s)\<rparr>
      else if key = skP1Up then s\<lparr>sPaddle1 := Paddle_OnMoveUpPressed P (sPaddle1 s)\<rparr>
      else if key = skP1Down then s\<lparr>sPaddle1 := Paddle_OnMoveDownPressed P (sPaddle1 s)\<rparr>
      else s)"

text \<open>
  \<open>LaunchBall\<close> draws two random signs, the one for \<open>x\<close> first; \<open>rnd\<close> holds the two draws.
\<close>

definition LaunchBall :: "BallMembers \<Rightarrow> bool \<times> bool \<Rightarrow> 'w State \<Rightarrow> 'w State" where
  "LaunchBall B rnd s =
     (let b1 = (sBall s)\<lparr>moveSpeed := Ball_skDefaultMoveSpeed B\<rparr>;
          b2 = b1\<lparr>moveDirection := \<lparr>x = RandomSignFloat (fst rnd), y = RandomSignFloat (snd rnd)\<rparr>\<rparr>;
          b3 = b2\<lparr>moveDirection := Normalize (moveDirection b2)\<rparr>
      in s\<lparr>sBall := b3\<rparr>)"

definition OnKeyEvent ::
  "BallMembers \<Rightarrow> PaddleMembers \<Rightarrow> bool \<times> bool \<Rightarrow> int \<Rightarrow> bool \<Rightarrow> 'w State \<Rightarrow> 'w State" where
  "OnKeyEvent B P rnd key pressed s =
     (if sPlaying s then
        (if pressed then OnKeyDown P key s else OnKeyUp P key s)
      else if pressed \<and> key = VK_SPACE then LaunchBall B rnd (s\<lparr>sPlaying := True\<rparr>)
      else s)"

subsection \<open>Reset, scores and the update of one frame\<close>

definition ResetGameState :: "BallMembers \<Rightarrow> 'w State \<Rightarrow> 'w State" where
  "ResetGameState B s =
     (let s0 = addEvent GameStateReset s;
          s1 = s0\<lparr>sBall := Ball_Reset B skWinSize (sBall s0)\<rparr>;
          s2 = s1\<lparr>sPaddle1 := Paddle_Reset skWinSize (sPaddle1 s1)\<rparr>;
          s3 = s2\<lparr>sPaddle2 := Paddle_Reset skWinSize (sPaddle2 s2)\<rparr>
      in s3\<lparr>sPlaying := False\<rparr>)"

definition PositionPaddlesOnTerrain :: "'w State \<Rightarrow> 'w State" where
  "PositionPaddlesOnTerrain s =
     (let kBorderOffset = 50.0;
          s1 = s\<lparr>sPaddle1 := (sPaddle1 s)\<lparr>position := (position (sPaddle1 s))\<lparr>x := kBorderOffset\<rparr>\<rparr>\<rparr>
      in s1\<lparr>sPaddle2 := (sPaddle2 s1)\<lparr>position :=
           (position (sPaddle2 s1))\<lparr>x := real_of_int (x skWinSize) - kBorderOffset\<rparr>\<rparr>\<rparr>)"

text \<open>
  \<open>++sPlayerScores[kScoreIndex]\<close> on an array of two \<open>unsigned\<close>: the index is computed in
  32-bit unsigned arithmetic and the score wraps at \<open>2^32\<close>.  An index outside the array is
  undefined behaviour in the source and leaves the list as it is here;
  \<open>CheckBallSideCollision\<close> passes \<open>Left\<close> or \<open>Right\<close> only.
\<close>

definition UpdateScores :: "Side \<Rightarrow> 'w State \<Rightarrow> 'w State" where
  "UpdateScores lostSide s =
     (let kScoreIndex = unat (1 - Side_unsigned lostSide)
      in s\<lparr>sPlayerScores :=
            (sPlayerScores s)[kScoreIndex := sPlayerScores s ! kScoreIndex + 1]\<rparr>)"

definition CheckBallSideCollision :: "BallMembers \<Rightarrow> 'w State \<Rightarrow> 'w State" where
  "CheckBallSideCollision B s =
     (let s0 = addEvent SideCollisionChecked s;
          kSide = Ball_GetTouchingSide B skWinSize (sBall s0)
      in if kSide \<noteq> Side_None then ResetGameState B (UpdateScores kSide s0) else s0)"

text \<open>
  \<open>sBall.CollideWith(sPaddle1) || sBall.CollideWith(sPaddle2)\<close>: the second call is made only
  when the first returns false.
\<close>

definition CollideWithPaddles :: "BallMembers \<Rightarrow> 'w State \<Rightarrow> bool \<times> 'w State" where
  "CollideWithPaddles B s =
     (case Ball_CollideWith B (sPaddle1 s) (sBall s) of
        (c1, b1) \<Rightarrow>
          if c1 then (True, s\<lparr>sBall := b1\<rparr>)
          else (case Ball_CollideWith B (sPaddle2 s) b1 of
                  (c2, b2) \<Rightarrow> (c2, s\<lparr>sBall := b2\<rparr>)))"

text \<open>
  \<open>OnUpdate\<close> in two parts: \<open>UpdateObjects\<close> is its statements up to and including
  \<open>sBall.CollideWithTerrain(skWinSize)\<close>, whose result, if it has one, is not used.
\<close>

definition UpdateObjects :: "BallMembers \<Rightarrow> real \<Rightarrow> 'w State \<Rightarrow> 'w State" where
  "UpdateObjects B delta s =
     (let s0 = addEvent UpdateCalled s;
          s1 = s0\<lparr>sBall := Ball_Update B delta (sBall s0)\<rparr>;
          s2 = s1\<lparr>sPaddle1 := Paddle_Update delta skWinSize (sPaddle1 s1)\<rparr>;
          s3 = s2\<lparr>sPaddle2 := Paddle_Update delta skWinSize (sPaddle2 s2)\<rparr>
      in s3\<lparr>sBall := Ball_CollideWithTerrain B skWinSize (sBall s3)\<rparr>)"

definition OnUpdate :: "BallMembers \<Rightarrow> real \<Rightarrow> 'w State \<Rightarrow> 'w State" where
  "OnUpdate B delta s =
     (case CollideWithPaddles B (UpdateObjects B delta s) of
        (kCollides, s5) \<Rightarrow> if \<not> kCollides then CheckBallSideCollision B s5 else s5)"

text \<open>
  \<open>OnRender\<close> draws the ball and the paddles and swaps the buffers.  These are calls into the
  graphics collaborator that read the game state; the model records that they were made.
\<close>

definition OnRender :: "'w State \<Rightarrow> 'w State" where
  "OnRender s = addEvent RenderCalled s"

subsection \<open>The frame loop\<close>

text \<open>
  What the collaborators hand to one iteration of the loop: the value \<open>Window::PollEvents\<close>
  returns, the key events (key code, pressed) it delivers to \<open>OnKeyEvent\<close> before it
  returns, the two random signs a launch during this poll would draw, and the value
  \<open>Time::Get\<close> returns.  At most one launch can happen during a poll, since a launch sets
  \<open>sPlaying\<close> and only \<open>OnUpdate\<close> clears it.
\<close>

record input =
  pollResult :: bool
  keyEvents :: "(int \<times> bool) list"
  randomSigns :: "bool \<times> bool"
  timeNow :: real

definition PollEvents :: "BallMembers \<Rightarrow> PaddleMembers \<Rightarrow> input \<Rightarrow> 'w State \<Rightarrow> bool \<times> 'w State" where
  "PollEvents B P inp s =
     (pollResult inp,
      fold (\<lambda>ke. OnKeyEvent B P (randomSigns inp) (fst ke) (snd ke)) (keyEvents inp)
        (addEvent (PollEventsCalled (pollResult inp)) s))"

definition GetTimeDelta :: "input \<Rightarrow> 'w State \<Rightarrow> real \<times> 'w State" where
  "GetTimeDelta inp s =
     (let kNow = timeNow inp;
          kTimeDelta = kNow - sLastTime s
      in (kTimeDelta, s\<lparr>sLastTime := kNow\<rparr>))"

text \<open>The body of the \<open>while\<close> loop of \<open>Run\<close>.\<close>

definition RunBody :: "BallMembers \<Rightarrow> PaddleMembers \<Rightarrow> input \<Rightarrow> 'w State \<Rightarrow> 'w State" where
  "RunBody B P inp s =
     (case PollEvents B P inp s of
        (r, s1) \<Rightarrow>
          (case GetTimeDelta inp (s1\<lparr>sRunning := r\<rparr>) of
             (cDelta, s2) \<Rightarrow> OnRender (OnUpdate B cDelta s2)))"

text \<open>
  \<open>while (sRunning) { ... }\<close>.  The loop runs for as long as \<open>PollEvents\<close> returns true, so it
  need not end: not returning is the value \<open>None\<close>.  \<open>env n\<close> is the input of iteration \<open>n\<close>.
\<close>

partial_function (option) RunLoop ::
  "BallMembers \<Rightarrow> PaddleMembers \<Rightarrow> (nat \<Rightarrow> input) \<Rightarrow> nat \<Rightarrow> 'w State \<Rightarrow> 'w State option" where
  "RunLoop B P env n s =
     (if sRunning s then RunLoop B P env (n + 1) (RunBody B P (env n) s) else Some s)"

text \<open>
  \<open>OnBeginRun\<close> also shows the window, logs the context and seeds the random generator, and
  \<open>OnFinishRun\<close> hides the window: calls into the collaborators that leave the statics of
  lepong.cpp as they are.
\<close>

definition OnBeginRun :: "BallMembers \<Rightarrow> 'w State \<Rightarrow> 'w State" where
  "OnBeginRun B s = PositionPaddlesOnTerrain (ResetGameState B (addEvent BeginRunCalled s))"

definition OnFinishRun :: "'w State \<Rightarrow> 'w State" where
  "OnFinishRun s = addEvent FinishRunCalled s"

text \<open>
  Modelled from the spec: the macros \<open>LEPONG_CHECK_OR_RETURN\<close> and
  \<open>LEPONG_CHECK_OR_RETURN_VAL\<close> (lepong/Check.h) are not under src.  They return from the
  enclosing function, with the given value, unless the condition holds.
\<close>

definition Run ::
  "BallMembers \<Rightarrow> PaddleMembers \<Rightarrow> (nat \<Rightarrow> input) \<Rightarrow> 'w State \<Rightarrow> 'w State option" where
  "Run B P env s =
     (if \<not> (sInitialized s \<and> \<not> sRunning s) then Some s
      else (case RunLoop B P env 0 (OnBeginRun B (s\<lparr>sRunning := True\<rparr>)) of
              None \<Rightarrow> None
            | Some s' \<Rightarrow> Some (OnFinishRun s')))"

text \<open>
  \<open>Init\<close> and \<open>Cleanup\<close> run the list \<open>kGameLifetimes\<close>, whose procedures act on the world; the
  list is a parameter.
\<close>

definition Init :: "'w Lifetime list \<Rightarrow> 'w State \<Rightarrow> bool \<times> 'w State" where
  "Init kGameLifetimes s =
     (if \<not> (\<not> sInitialized s) then (False, s)
      else (case TryInitItems kGameLifetimes (world s, calls s) of
              (ok, (w, tr)) \<Rightarrow> (ok, s\<lparr>sInitialized := ok, world := w, calls := tr\<rparr>)))"

definition Cleanup :: "'w Lifetime list \<Rightarrow> 'w State \<Rightarrow> 'w State" where
  "Cleanup kGameLifetimes s =
     (if \<not> (sInitialized s \<and> \<not> sRunning s) then s
      else (case CleanupItems kGameLifetimes (world s, calls s) of
              (w, tr) \<Rightarrow> s\<lparr>world := w, calls := tr, sInitialized := False\<rparr>))"

section \<open>Shaders and programs (Graphics/Graphics.cpp)\<close>

type_synonym GLuint = "32 word"
type_synonym GLint = "32 word"
type_synonym GLenum = "32 word"

text \<open>
  The names of lepong/Graphics/GL.h (not under src) with the values OpenGL gives them.
\<close>

definition gl_FragmentShader :: GLenum where "gl_FragmentShader = 0x8B30"
definition gl_VertexShader :: GLenum where "gl_VertexShader = 0x8B31"
definition gl_CompileStatus :: GLenum where "gl_CompileStatus = 0x8B81"
definition gl_LinkStatus :: GLenum where "gl_LinkStatus = 0x8B82"
definition gl_InfoLogLength :: GLenum where "gl_InfoLogLength = 0x8B84"

text \<open>
  The OpenGL entry points that Graphics.cpp calls belong to the graphics collaborator.  They
  are parameters of the model and act on the collaborator's state \<open>'g\<close>.  A query
  (\<open>GetShaderiv\<close>, \<open>GetProgramiv\<close>, the info logs) returns the value the collaborator writes
  through the pointer it is given.
\<close>

record 'g GL =
  gl_CreateShader :: "GLenum \<Rightarrow> 'g \<Rightarrow> GLuint \<times> 'g"
  gl_ShaderSource :: "GLuint \<Rightarrow> string \<Rightarrow> 'g \<Rightarrow> 'g"
  gl_CompileShader :: "GLuint \<Rightarrow> 'g \<Rightarrow> 'g"
  gl_GetShaderiv :: "GLuint \<Rightarrow> GLenum \<Rightarrow> 'g \<Rightarrow> GLint"
  gl_GetShaderInfoLog :: "GLuint \<Rightarrow> GLint \<Rightarrow> 'g \<Rightarrow> string"
  gl_DeleteShader :: "GLuint \<Rightarrow> 'g \<Rightarrow> 'g"
  gl_CreateProgram :: "'g \<Rightarrow> GLuint \<times> 'g"
  gl_AttachShader :: "GLuint \<Rightarrow> GLuint \<Rightarrow> 'g \<Rightarrow> 'g"
  gl_LinkProgram :: "GLuint \<Rightarrow> 'g \<Rightarrow> 'g"
  gl_GetProgramiv :: "GLuint \<Rightarrow> GLenum \<Rightarrow> 'g \<Rightarrow> GLint"
  gl_GetProgramInfoLog :: "GLuint \<Rightarrow> GLint \<Rightarrow> 'g \<Rightarrow> string"
  gl_DeleteProgram :: "GLuint \<Rightarrow> 'g \<Rightarrow> 'g"

text \<open>
  The calls that change the collaborator's state and the lines given to \<open>Log::Log\<close>, in the
  order in which they are made.
\<close>

datatype glcall =
    CreateShaderCall GLenum GLuint
  | ShaderSourceCall GLuint string
  | CompileShaderCall GLuint
  | DeleteShaderCall GLuint
  | CreateProgramCall GLuint
  | AttachShaderCall GLuint GLuint
  | LinkProgramCall GLuint
  | DeleteProgramCall GLuint
  | LogCall string

type_synonym 'g gfx = "'g \<times> glcall list"

definition Log_Log :: "string \<Rightarrow> 'g gfx \<Rightarrow> 'g gfx" where
  "Log_Log line st = (fst st, snd st @ [LogCall line])"

definition GetItemiv :: "GLuint \<Rightarrow> GLenum \<Rightarrow> (GLuint \<Rightarrow> GLenum \<Rightarrow> 'g \<Rightarrow> GLint) \<Rightarrow> 'g gfx \<Rightarrow> GLint" where
  "GetItemiv item name getItemiv st = getItemiv item name (fst st)"

definition ShaderCompileFailed :: "'g GL \<Rightarrow> GLuint \<Rightarrow> 'g gfx \<Rightarrow> bool" where
  "ShaderCompileFailed G shader st = (GetItemiv shader gl_CompileStatus (gl_GetShaderiv G) st = 0)"

definition ProgramLinkFailed :: "'g GL \<Rightarrow> GLuint \<Rightarrow> 'g gfx \<Rightarrow> bool" where
  "ProgramLinkFailed G program st = (GetItemiv program gl_LinkStatus (gl_GetProgramiv G) st = 0)"

definition LogItemInfo ::
  "GLuint \<Rightarrow> (GLuint \<Rightarrow> GLenum \<Rightarrow> 'g \<Rightarrow> GLint) \<Rightarrow> (GLuint \<Rightarrow> GLint \<Rightarrow> 'g \<Rightarrow> string) \<Rightarrow> 'g gfx \<Rightarrow> 'g gfx" where
  "LogItemInfo item getItemiv getItemInfo st =
     (let kInfoLogLength = GetItemiv item gl_InfoLogLength getItemiv st;
          kInfoLogData = getItemInfo item kInfoLogLength (fst st)
      in Log_Log kInfoLogData st)"

definition LogShaderInfo :: "'g GL \<Rightarrow> GLuint \<Rightarrow> 'g gfx \<Rightarrow> 'g gfx" where
  "LogShaderInfo G shader st =
     LogItemInfo shader (gl_GetShaderiv G) (gl_GetShaderInfoLog G) (Log_Log ''Shader info:'' st)"

definition LogProgramInfo :: "'g GL \<Rightarrow> GLuint \<Rightarrow> 'g gfx \<Rightarrow> 'g gfx" where
  "LogProgramInfo G program st =
     LogItemInfo program (gl_GetProgramiv G) (gl_GetProgramInfoLog G) (Log_Log ''Program info:'' st)"

text \<open>
  Modelled from the spec: the macro \<open>LEPONG_ASSERT_OR_RETURN_VAL\<close> (lepong/Assert.h) is not
  under src.  It returns the given value from the enclosing function unless the condition
  holds.  A null \<open>source\<close> pointer is \<open>None\<close>.
\<close>

definition CreateShaderFromSource ::
  "'g GL \<Rightarrow> GLenum \<Rightarrow> string option \<Rightarrow> 'g gfx \<Rightarrow> GLuint \<times> 'g gfx" where
  "CreateShaderFromSource G type source st =
     (case source of
        None \<Rightarrow> (0, st)
      | Some src \<Rightarrow>
          if \<not> (type = gl_VertexShader \<or> type = gl_FragmentShader) then (0, st)
          else
            (case gl_CreateShader G type (fst st) of
               (shader, g1) \<Rightarrow>
                 (let st1 = (g1, snd st @ [CreateShaderCall type shader]);
                      st2 = (gl_ShaderSource G shader src (fst st1),
                             snd st1 @ [ShaderSourceCall shader src]);
                      st3 = (gl_CompileShader G shader (fst st2),
                             snd st2 @ [CompileShaderCall shader]);
                      kCompileFailed = ShaderCompileFailed G shader st3
                  in if kCompileFailed then
                       (let st4 = LogShaderInfo G shader st3;
                            st5 = (gl_DeleteShader G shader (fst st4),
                                   snd st4 @ [DeleteShaderCall shader])
                        in (0, st5))
                     else (shader, st3))))"

definition CreateProgramFromShaders ::
  "'g GL \<Rightarrow> GLuint \<Rightarrow> GLuint \<Rightarrow> 'g gfx \<Rightarrow> GLuint \<times> 'g gfx" where
  "CreateProgramFromShaders G vert frag st =
     (if \<not> (vert \<noteq> 0 \<and> frag \<noteq> 0) then (0, st)
      else
        (case gl_CreateProgram G (fst st) of
           (program, g1) \<Rightarrow>
             (let st1 = (g1, snd st @ [CreateProgramCall program]);
                  st2 = (gl_AttachShader G program vert (fst st1),
                         snd st1 @ [AttachShaderCall program vert]);
                  st3 = (gl_AttachShader G program frag (fst st2),
                         snd st2 @ [AttachShaderCall program frag]);
                  st4 = (gl_LinkProgram G program (fst st3),
                         snd st3 @ [LinkProgramCall program]);
                  kLinkFailed = ProgramLinkFailed G program st4
              in if kLinkFailed then
                   (let st5 = LogProgramInfo G program st4;
                        st6 = (gl_DeleteProgram G program (fst st5),
                               snd st5 @ [DeleteProgramCall program])
                    in (0, st6))
                 else (program, st4))))"

text \<open>
  The object the collaborator creates for a shader of the given type, and the
  collaborator's state once the source has been attached to it and compiled.
\<close>

definition compiledShader :: "'g GL \<Rightarrow> GLenum \<Rightarrow> string \<Rightarrow> 'g \<Rightarrow> GLuint \<times> 'g" where
  "compiledShader G type src g =
     (case gl_CreateShader G type g of
        (shader, g1) \<Rightarrow> (shader, gl_CompileShader G shader (gl_ShaderSource G shader src g1)))"

text \<open>
  The object the collaborator creates for a program, and the collaborator's state once the
  two shaders have been attached to it and it has been linked.
\<close>

definition linkedProgram :: "'g GL \<Rightarrow> GLuint \<Rightarrow> GLuint \<Rightarrow> 'g \<Rightarrow> GLuint \<times> 'g" where
  "linkedProgram G vert frag g =
     (case gl_CreateProgram G g of
        (program, g1) \<Rightarrow>
          (program,
           gl_LinkProgram G program
             (gl_AttachShader G program frag (gl_AttachShader G program vert g1))))"

section \<open>The ball as the spec describes it\<close>

text \<open>
  Modelled from the spec: \<open>Ball::CollideWithTerrain\<close> (Ball.cpp) is not under src.  If the
  ball's vertical position plus radius exceeds either terrain edge, \<open>moveDirection.y\<close> is
  negated and the position is corrected to remain in bounds.
\<close>

definition Spec_Ball_TouchesTerrain :: "Vector2i \<Rightarrow> Ball \<Rightarrow> bool" where
  "Spec_Ball_TouchesTerrain winSize b =
     (y (position b) + radius b > real_of_int (y winSize) \<or> y (position b) - radius b < 0)"

definition Spec_Ball_CollideWithTerrain :: "Vector2i \<Rightarrow> Ball \<Rightarrow> Ball" where
  "Spec_Ball_CollideWithTerrain winSize b =
     (if y (position b) + radius b > real_of_int (y winSize) then
        b\<lparr>moveDirection := (moveDirection b)\<lparr>y := - y (moveDirection b)\<rparr>,
          position := (position b)\<lparr>y := real_of_int (y winSize) - radius b\<rparr>\<rparr>
      else if y (position b) - radius b < 0 then
        b\<lparr>moveDirection := (moveDirection b)\<lparr>y := - y (moveDirection b)\<rparr>,
          position := (position b)\<lparr>y := radius b\<rparr>\<rparr>
      else b)"

text \<open>
  Modelled from the spec: \<open>Ball::CollideWith\<close> (Ball.cpp) is not under src.  The ball's
  bounding square (side \<open>2 * radius\<close>) is tested for overlap with the paddle's rectangle; on
  overlap \<open>moveDirection.x\<close> is negated, \<open>moveSpeed\<close> grows by a fixed increment and the call
  returns true.
\<close>

definition Spec_Ball_CollideWith :: "real \<Rightarrow> Paddle \<Rightarrow> Ball \<Rightarrow> bool \<times> Ball" where
  "Spec_Ball_CollideWith increment p b =
     (if \<bar>x (position b) - x (position p)\<bar> < radius b + x (sizeV p) / 2 \<and>
         \<bar>y (position b) - y (position p)\<bar> < radius b + y (sizeV p) / 2
      then (True, b\<lparr>moveDirection := (moveDirection b)\<lparr>x := - x (moveDirection b)\<rparr>,
                    moveSpeed := moveSpeed b + increment\<rparr>)
      else (False, b))"

text \<open>
  Modelled from the spec: \<open>Ball::GetTouchingSide\<close> (Ball.cpp) is not under src.  It tells
  whether the ball has crossed fully past the left or the right terrain edge.
\<close>

definition Spec_Ball_GetTouchingSide :: "Vector2i \<Rightarrow> Ball \<Rightarrow> Side" where
  "Spec_Ball_GetTouchingSide winSize b =
     (if x (position b) + radius b < 0 then Side_Left
      else if x (position b) - radius b > real_of_int (x winSize) then Side_Right
      else Side_None)"

text \<open>
  Modelled from the spec: \<open>Ball::Reset\<close> (Ball.cpp) is not under src.  The ball returns to
  the centre of the terrain, at rest.
\<close>

definition Spec_Ball_Reset :: "Vector2i \<Rightarrow> Ball \<Rightarrow> Ball" where
  "Spec_Ball_Reset winSize b =
     b\<lparr>position := \<lparr>x = real_of_int (x winSize) / 2, y = real_of_int (y winSize) / 2\<rparr>,
       moveSpeed := 0,
       moveDirection := \<lparr>x = 0, y = 0\<rparr>\<rparr>"

definition SpecBall :: "real \<Rightarrow> real \<Rightarrow> BallMembers" where
  "SpecBall defaultMoveSpeed increment =
     \<lparr>Ball_skDefaultMoveSpeed = defaultMoveSpeed,
      Ball_Update = GameObject_Update,
      Ball_CollideWithTerrain = Spec_Ball_CollideWithTerrain,
      Ball_CollideWith = Spec_Ball_CollideWith increment,
      Ball_GetTouchingSide = Spec_Ball_GetTouchingSide,
      Ball_Reset = Spec_Ball_Reset\<rparr>"

section \<open>Notions used to state the properties\<close>

text \<open>The events of the loop body itself: the poll, the update and the render.\<close>

fun isLoopEvent :: "event \<Rightarrow> bool" where
  "isLoopEvent (PollEventsCalled r) = True"
| "isLoopEvent UpdateCalled = True"
| "isLoopEvent RenderCalled = True"
| "isLoopEvent BeginRunCalled = False"
| "isLoopEvent SideCollisionChecked = False"
| "isLoopEvent GameStateReset = False"
| "isLoopEvent FinishRunCalled = False"

text \<open>The state after \<open>n\<close> executions of the loop body, the first of them on input \<open>env i\<close>.\<close>

primrec RunBodies ::
  "BallMembers \<Rightarrow> PaddleMembers \<Rightarrow> (nat \<Rightarrow> input) \<Rightarrow> nat \<Rightarrow> nat \<Rightarrow> 'w State \<Rightarrow> 'w State" where
  "RunBodies B P env i 0 s = s"
| "RunBodies B P env i (Suc n) s = RunBodies B P env (Suc i) n (RunBody B P (env i) s)"

text \<open>
  The items that are initialised after a sequence of calls, starting from the set \<open>L\<close>; \<open>None\<close>
  when the sequence initialises an item that is initialised or cleans up one that is not.
\<close>

fun liveItems :: "nat set \<Rightarrow> call list \<Rightarrow> nat set option" where
  "liveItems L [] = Some L"
| "liveItems L (InitCall i ok # tr) =
     (if i \<in> L then None else liveItems (if ok then insert i L else L) tr)"
| "liveItems L (CleanupCall i # tr) =
     (if i \<in> L then liveItems (L - {i}) tr else None)"

text \<open>
  A client of lepong.h calls \<open>Init\<close>, \<open>Run\<close> and \<open>Cleanup\<close> in any order; a call of \<open>Run\<close> comes
  with the inputs its iterations will receive.
\<close>

datatype api = CallInit | CallRun "nat \<Rightarrow> input" | CallCleanup

fun apiStep ::
  "'w Lifetime list \<Rightarrow> BallMembers \<Rightarrow> PaddleMembers \<Rightarrow> api \<Rightarrow> 'w State \<Rightarrow> 'w State option" where
  "apiStep kGameLifetimes B P CallInit s = Some (snd (Init kGameLifetimes s))"
| "apiStep kGameLifetimes B P (CallRun env) s = Run B P env s"
| "apiStep kGameLifetimes B P CallCleanup s = Some (Cleanup kGameLifetimes s)"

fun apiRun ::
  "'w Lifetime list \<Rightarrow> BallMembers \<Rightarrow> PaddleMembers \<Rightarrow> api list \<Rightarrow> 'w State \<Rightarrow> 'w State option" where
  "apiRun kGameLifetimes B P [] s = Some s"
| "apiRun kGameLifetimes B P (c # cs) s =
     (case apiStep kGameLifetimes B P c s of
        None \<Rightarrow> None
      | Some s' \<Rightarrow> apiRun kGameLifetimes B P cs s')"

text \<open>
  The state a client can observe between two calls: the calls recorded so far leave every
  item of the list initialised if \<open>sInitialized\<close> is set and no item otherwise, and the
  frame loop is not running.
\<close>

definition protocol :: "'w Lifetime list \<Rightarrow> 'w State \<Rightarrow> bool" where
  "protocol ls s =
     (liveItems {} (calls s) = Some (if sInitialized s then {0..<length ls} else {})
      \<and> \<not> sRunning s)"

section \<open>Concrete inputs\<close>

text \<open>A list of three items over a stack of initialised items; the second one fails.\<close>

definition threeItems :: "nat list Lifetime list" where
  "threeItems =
     [\<lparr>mInit = (\<lambda>w. (True, 0 # w)), mCleanup = tl\<rparr>,
      \<lparr>mInit = (\<lambda>w. (False, w)), mCleanup = tl\<rparr>,
      \<lparr>mInit = (\<lambda>w. (True, 2 # w)), mCleanup = tl\<rparr>]"

text \<open>A list of two items that both succeed.\<close>

definition twoItems :: "nat list Lifetime list" where
  "twoItems =
     [\<lparr>mInit = (\<lambda>w. (True, 0 # w)), mCleanup = tl\<rparr>,
      \<lparr>mInit = (\<lambda>w. (True, 1 # w)), mCleanup = tl\<rparr>]"

text \<open>A paddle near the top of the terrain, moving up.\<close>

definition topPaddle :: Paddle where
  "topPaddle =
     \<lparr>position = \<lparr>x = 50, y = 625\<rparr>, moveDirection = \<lparr>x = 0, y = 1\<rparr>, moveSpeed = 300,
      sizeV = \<lparr>x = 25, y = 150\<rparr>, front = 1\<rparr>"

text \<open>
  Three states of a match in play.  In \<open>cornerState\<close> the ball is past the right paddle and
  about to leave through the top right corner; in \<open>rallyState\<close> it is about to reach the right
  paddle; in \<open>leftState\<close> it is about to cross the left edge.
\<close>

definition cornerState :: "unit State" where
  "cornerState =
     \<lparr>sInitialized = True, sRunning = True, sPlaying = True, sPlayerScores = [0, 0],
      sBall = \<lparr>position = \<lparr>x = 1290, y = 690\<rparr>, moveDirection = \<lparr>x = 0.6, y = 0.8\<rparr>,
               moveSpeed = 50, radius = 20\<rparr>,
      sPaddle1 = \<lparr>position = \<lparr>x = 50, y = 360\<rparr>, moveDirection = \<lparr>x = 0, y = 0\<rparr>,
                  moveSpeed = 0, sizeV = \<lparr>x = 25, y = 150\<rparr>, front = 1\<rparr>,
      sPaddle2 = \<lparr>position = \<lparr>x = 1230, y = 360\<rparr>, moveDirection = \<lparr>x = 0, y = 0\<rparr>,
                  moveSpeed = 0, sizeV = \<lparr>x = 25, y = 150\<rparr>, front = - 1\<rparr>,
      sLastTime = 0, world = (), calls = [], events = []\<rparr>"

definition rallyState :: "unit State" where
  "rallyState =
     \<lparr>sInitialized = True, sRunning = True, sPlaying = True, sPlayerScores = [0, 0],
      sBall = \<lparr>position = \<lparr>x = 1200, y = 360\<rparr>, moveDirection = \<lparr>x = 1, y = 0\<rparr>,
               moveSpeed = 10, radius = 20\<rparr>,
      sPaddle1 = \<lparr>position = \<lparr>x = 50, y = 360\<rparr>, moveDirection = \<lparr>x = 0, y = 0\<rparr>,
                  moveSpeed = 0, sizeV = \<lparr>x = 25, y = 150\<rparr>, front = 1\<rparr>,
      sPaddle2 = \<lparr>position = \<lparr>x = 1230, y = 360\<rparr>, moveDirection = \<lparr>x = 0, y = 0\<rparr>,
                  moveSpeed = 0, sizeV = \<lparr>x = 25, y = 150\<rparr>, front = - 1\<rparr>,
      sLastTime = 0, world = (), calls = [], events = []\<rparr>"

definition leftState :: "unit State" where
  "leftState =
     \<lparr>sInitialized = True, sRunning = True, sPlaying = True, sPlayerScores = [3, 7],
      sBall = \<lparr>position = \<lparr>x = 5, y = 300\<rparr>, moveDirection = \<lparr>x = - 1, y = 0\<rparr>,
               moveSpeed = 40, radius = 20\<rparr>,
      sPaddle1 = \<lparr>position = \<lparr>x = 50, y = 500\<rparr>, moveDirection = \<lparr>x = 0, y = 1\<rparr>,
                  moveSpeed = 30, sizeV = \<lparr>x = 25, y = 150\<rparr>, front = 1\<rparr>,
      sPaddle2 = \<lparr>position = \<lparr>x = 1230, y = 360\<rparr>, moveDirection = \<lparr>x = 0, y = 0\<rparr>,
                  moveSpeed = 0, sizeV = \<lparr>x = 25, y = 150\<rparr>, front = - 1\<rparr>,
      sLastTime = 0, world = (), calls = [], events = []\<rparr>"

text \<open>
  An idle match, handlers that leave a paddle as it is, and two sequences of inputs: one
  asks to quit on the third poll, the other on the first.
\<close>

definition idleState :: "unit State" where
  "idleState =
     \<lparr>sInitialized = True, sRunning = True, sPlaying = False, sPlayerScores = [0, 0],
      sBall = \<lparr>position = \<lparr>x = 640, y = 360\<rparr>, moveDirection = \<lparr>x = 0, y = 0\<rparr>,
               moveSpeed = 0, radius = 20\<rparr>,
      sPaddle1 = \<lparr>position = \<lparr>x = 50, y = 360\<rparr>, moveDirection = \<lparr>x = 0, y = 0\<rparr>,
                  moveSpeed = 0, sizeV = \<lparr>x = 25, y = 150\<rparr>, front = 1\<rparr>,
      sPaddle2 = \<lparr>position = \<lparr>x = 1230, y = 360\<rparr>, moveDirection = \<lparr>x = 0, y = 0\<rparr>,
                  moveSpeed = 0, sizeV = \<lparr>x = 25, y = 150\<rparr>, front = - 1\<rparr>,
      sLastTime = 0, world = (), calls = [], events = []\<rparr>"

definition stillPaddles :: PaddleMembers where
  "stillPaddles =
     \<lparr>Paddle_OnMoveUpPressed = (\<lambda>p. p), Paddle_OnMoveDownPressed = (\<lambda>p. p),
      Paddle_OnMoveUpReleased = (\<lambda>p. p), Paddle_OnMoveDownReleased = (\<lambda>p. p)\<rparr>"

definition readyState :: "unit State" where
  "readyState = idleState\<lparr>sRunning := False\<rparr>"

definition threeFrames :: "nat \<Rightarrow> input" where
  "threeFrames n =
     \<lparr>pollResult = (n < 2), keyEvents = [], randomSigns = (True, True), timeNow = real n\<rparr>"

text \<open>A state in which nothing has been initialised yet, over the world of \<open>twoItems\<close>.\<close>

definition freshState :: "nat list State" where
  "freshState =
     \<lparr>sInitialized = False, sRunning = False, sPlaying = False, sPlayerScores = [0, 0],
      sBall = \<lparr>position = \<lparr>x = 0, y = 0\<rparr>, moveDirection = \<lparr>x = 0, y = 0\<rparr>,
               moveSpeed = 0, radius = 20\<rparr>,
      sPaddle1 = \<lparr>position = \<lparr>x = 0, y = 0\<rparr>, moveDirection = \<lparr>x = 0, y = 0\<rparr>,
                  moveSpeed = 0, sizeV = \<lparr>x = 25, y = 150\<rparr>, front = 1\<rparr>,
      sPaddle2 = \<lparr>position = \<lparr>x = 0, y = 0\<rparr>, moveDirection = \<lparr>x = 0, y = 0\<rparr>,
                  moveSpeed = 0, sizeV = \<lparr>x = 25, y = 150\<rparr>, front = - 1\<rparr>,
      sLastTime = 0, world = [], calls = [], events = []\<rparr>"

definition quitAtOnce :: "nat \<Rightarrow> input" where
  "quitAtOnce n =
     \<lparr>pollResult = False, keyEvents = [], randomSigns = (True, True), timeNow = real n\<rparr>"

text \<open>
  A graphics collaborator whose state is the sources and the attached shaders it has seen.
  It compiles one source text only, and links a program only when two different shaders
  are attached to it.
\<close>

definition toyGL :: "(string list \<times> GLuint list) GL" where
  "toyGL =
     \<lparr>gl_CreateShader = (\<lambda>type g. (7, g)),
      gl_ShaderSource = (\<lambda>shader src g. (src # fst g, snd g)),
      gl_CompileShader = (\<lambda>shader g. g),
      gl_GetShaderiv = (\<lambda>shader name g.
         if name = gl_CompileStatus
         then (case fst g of
                 [] \<Rightarrow> 0
               | src # rest \<Rightarrow> if src = ''void main() {}'' then 1 else 0)
         else 13),
      gl_GetShaderInfoLog = (\<lambda>shader len g. ''syntax error''),
      gl_DeleteShader = (\<lambda>shader g. g),
      gl_CreateProgram = (\<lambda>g. (9, g)),
      gl_AttachShader = (\<lambda>program shader g. (fst g, shader # snd g)),
      gl_LinkProgram = (\<lambda>program g. g),
      gl_GetProgramiv = (\<lambda>program name g.
         if name = gl_LinkStatus
         then (case snd g of
                 a # b # rest \<Rightarrow> if a \<noteq> b then 1 else 0
               | short \<Rightarrow> 0)
         else 11),
      gl_GetProgramInfoLog = (\<lambda>program len g. ''link error''),
      gl_DeleteProgram = (\<lambda>program g. g)\<rparr>"

section \<open>Properties of the lifetime lists\<close>

declare CleanupItemsLoop.simps [simp del] TryInitItemsLoop.simps [simp del]

lemma static_cast_int_small: "u < 2 ^ 31 \<Longrightarrow> static_cast_int u = int u"
  by (simp add: static_cast_int_def)

lemma CleanupItemsLoop_trace:
  "CleanupItemsLoop ls (int j - 1) (w, tr) =
     (cleanupWorld ls j w, tr @ map CleanupCall (rev [0..<j]))"
proof (induction j arbitrary: w tr)
  case 0
  show ?case by (simp add: CleanupItemsLoop.simps [of ls "-1"])
next
  case (Suc j)
  have "CleanupItemsLoop ls (int (Suc j) - 1) (w, tr) =
        CleanupItemsLoop ls (int j - 1) (Lifetime_Cleanup ls j (w, tr))"
    by (subst CleanupItemsLoop.simps) simp
  then show ?case
    by (simp add: Lifetime_Cleanup_def Suc.IH)
qed

lemma CleanupItemsStartingAt_trace:
  "index < 2 ^ 31 \<Longrightarrow>
   CleanupItemsStartingAt ls index (w, tr) =
     (cleanupWorld ls index w, tr @ map CleanupCall (rev [0..<index]))"
  by (simp add: CleanupItemsStartingAt_def static_cast_int_small CleanupItemsLoop_trace)

lemma TryInitItemsLoop_stop: "TryInitItemsLoop ls i False st = (False, st)"
  by (simp add: TryInitItemsLoop.simps)

lemma TryInitItemsLoop_fail:
  assumes "length ls < 2 ^ 31" and "k < length ls" and "i \<le> k"
    and "\<forall>j. i \<le> j \<and> j < k \<longrightarrow> initOk ls j w0"
    and "\<not> initOk ls k w0"
  shows "TryInitItemsLoop ls i True (initWorld ls i w0, tr) =
     (False, cleanupWorld ls k (initWorld ls (Suc k) w0),
        tr @ map (\<lambda>j. InitCall j True) [i..<k] @ [InitCall k False]
           @ map CleanupCall (rev [0..<k]))"
  using assms(3,4)
proof (induction "k - i" arbitrary: i tr)
  case 0
  then have [simp]: "i = k" by simp
  have k31: "k < 2 ^ 31" using assms(1,2) by simp
  show ?case
    using assms(2,5)
    by (subst TryInitItemsLoop.simps)
       (simp add: Lifetime_Init_def initOk_def split_beta TryInitItemsLoop_stop
          CleanupItemsStartingAt_trace [OF k31])
next
  case (Suc d)
  then have ik: "i < k" and ok: "initOk ls i w0" by auto
  have step: "TryInitItemsLoop ls i True (initWorld ls i w0, tr) =
      TryInitItemsLoop ls (Suc i) True (initWorld ls (Suc i) w0, tr @ [InitCall i True])"
    using ik assms(2) ok
    by (subst TryInitItemsLoop.simps) (simp add: Lifetime_Init_def initOk_def split_beta)
  have "d = k - Suc i" using Suc.hyps(2) by simp
  moreover have "Suc i \<le> k" using ik by simp
  moreover have "\<forall>j. Suc i \<le> j \<and> j < k \<longrightarrow> initOk ls j w0" using Suc.prems(2) by simp
  ultimately have "TryInitItemsLoop ls (Suc i) True (initWorld ls (Suc i) w0, tr @ [InitCall i True]) =
     (False, cleanupWorld ls k (initWorld ls (Suc k) w0),
        (tr @ [InitCall i True]) @ map (\<lambda>j. InitCall j True) [Suc i..<k] @ [InitCall k False]
           @ map CleanupCall (rev [0..<k]))"
    by (rule Suc.hyps(1))
  then show ?case
    using ik by (simp add: step upt_conv_Cons)
qed

lemma TryInitItemsLoop_ok:
  assumes "i \<le> length ls"
    and "\<forall>j. i \<le> j \<and> j < length ls \<longrightarrow> initOk ls j w0"
  shows "TryInitItemsLoop ls i True (initWorld ls i w0, tr) =
     (True, initWorld ls (length ls) w0, tr @ map (\<lambda>j. InitCall j True) [i..<length ls])"
  using assms
proof (induction "length ls - i" arbitrary: i tr)
  case 0
  then have "i = length ls" by simp
  then show ?case by (subst TryInitItemsLoop.simps) simp
next
  case (Suc d)
  then have il: "i < length ls" and ok: "initOk ls i w0" by auto
  have step: "TryInitItemsLoop ls i True (initWorld ls i w0, tr) =
      TryInitItemsLoop ls (Suc i) True (initWorld ls (Suc i) w0, tr @ [InitCall i True])"
    using il ok
    by (subst TryInitItemsLoop.simps) (simp add: Lifetime_Init_def initOk_def split_beta)
  have "d = length ls - Suc i" using Suc.hyps(2) by simp
  moreover have "Suc i \<le> length ls" using il by simp
  moreover have "\<forall>j. Suc i \<le> j \<and> j < length ls \<longrightarrow> initOk ls j w0" using Suc.prems(2) by simp
  ultimately have "TryInitItemsLoop ls (Suc i) True (initWorld ls (Suc i) w0, tr @ [InitCall i True]) =
     (True, initWorld ls (length ls) w0,
        (tr @ [InitCall i True]) @ map (\<lambda>j. InitCall j True) [Suc i..<length ls])"
    by (rule Suc.hyps(1))
  then show ?case
    using il by (simp add: step upt_conv_Cons)
qed

text \<open>
  C1.  Let item \<open>k\<close> of a list of \<open>N\<close> items fail to initialise after the items \<open>0, ..., k - 1\<close>
  succeeded.  Then \<open>TryInitItems\<close> returns false, and the calls it makes are exactly: \<open>Init\<close>
  of the items \<open>0, ..., k\<close> in order, then \<open>Cleanup\<close> of the items \<open>k - 1\<close> down to \<open>0\<close>.  No
  item after \<open>k\<close> is initialised or cleaned up, and item \<open>k\<close> is not cleaned up.
\<close>

theorem TryInitItems_rollback:
  assumes "length lifetimes < 2 ^ 31" and "k < length lifetimes"
    and "\<forall>i<k. initOk lifetimes i w" and "\<not> initOk lifetimes k w"
  shows "TryInitItems lifetimes (w, []) =
           (False, cleanupWorld lifetimes k (initWorld lifetimes (Suc k) w),
            map (\<lambda>i. InitCall i True) [0..<k] @ [InitCall k False]
              @ map CleanupCall (rev [0..<k]))
         \<and> (\<forall>j b. k < j \<longrightarrow> InitCall j b \<notin> set (snd (snd (TryInitItems lifetimes (w, [])))))
         \<and> (\<forall>j. k \<le> j \<longrightarrow> CleanupCall j \<notin> set (snd (snd (TryInitItems lifetimes (w, [])))))"
proof -
  have run: "TryInitItems lifetimes (w, []) =
      (False, cleanupWorld lifetimes k (initWorld lifetimes (Suc k) w),
       map (\<lambda>i. InitCall i True) [0..<k] @ [InitCall k False] @ map CleanupCall (rev [0..<k]))"
    using TryInitItemsLoop_fail [of lifetimes k 0 w "[]"] assms
    by (simp add: TryInitItems_def)
  show ?thesis
    unfolding run by auto
qed

theorem TryInitItems_rollback_witness:
  "initOk threeItems 0 [] \<and> \<not> initOk threeItems 1 []
   \<and> TryInitItems threeItems ([], []) =
       (False, [], [InitCall 0 True, InitCall 1 False, CleanupCall 0])"
  using TryInitItems_rollback [of threeItems 1 "[]"]
  by (simp add: threeItems_def initOk_def)

text \<open>
  C6.  When every item of the list initialises successfully, \<open>TryInitItems\<close> returns true and
  the calls it makes are exactly \<open>Init\<close> of the items \<open>0, ..., N - 1\<close>, each once and in list
  order; it calls no \<open>Cleanup\<close>.
\<close>

theorem TryInitItems_all_succeed:
  assumes "length lifetimes < 2 ^ 32"
    and "\<forall>i<length lifetimes. initOk lifetimes i w"
  shows "TryInitItems lifetimes (w, []) =
           (True, initWorld lifetimes (length lifetimes) w,
            map (\<lambda>i. InitCall i True) [0..<length lifetimes])
         \<and> (\<forall>j. CleanupCall j \<notin> set (snd (snd (TryInitItems lifetimes (w, [])))))"
proof -
  have run: "TryInitItems lifetimes (w, []) =
      (True, initWorld lifetimes (length lifetimes) w,
       map (\<lambda>i. InitCall i True) [0..<length lifetimes])"
    using TryInitItemsLoop_ok [of 0 lifetimes w "[]"] assms(2)
    by (simp add: TryInitItems_def)
  show ?thesis
    unfolding run by auto
qed

theorem TryInitItems_all_succeed_witness:
  "initOk twoItems 0 [] \<and> initOk twoItems 1 []
   \<and> TryInitItems twoItems ([], []) = (True, [1, 0], [InitCall 0 True, InitCall 1 True])"
  using TryInitItems_all_succeed [of twoItems "[]"]
  by (simp add: twoItems_def initOk_def less_Suc_eq)

section \<open>Properties of game objects and paddles\<close>

lemma GameObject_Update_position_y:
  "y (position (GameObject_Update delta obj)) =
     y (position obj) + y (moveDirection obj) * moveSpeed obj * delta"
  by (simp add: GameObject_Update_def Vector2_add_def Vector2_scale_def)

lemma GameObject_Update_revert:
  "(GameObject_Update delta obj)\<lparr>position := position obj\<rparr> = obj"
  by (simp add: GameObject_Update_def)

lemma GameObject_Update_sizeV:
  "sizeV (GameObject_Update delta p) = sizeV p"
  by (simp add: GameObject_Update_def)

text \<open>
  C7.  \<open>update(T)\<close> on a game object with position \<open>P\<close>, direction \<open>D\<close> and speed \<open>S\<close> sets the
  position to \<open>P + D * S * T\<close> and changes nothing else: not the direction, not the speed, not
  the fields a paddle or a ball adds.  The result is a function of the object and of \<open>T\<close>
  alone, and no bound is applied to it.
\<close>

theorem GameObject_Update_translation:
  "position (GameObject_Update T obj) =
     \<lparr>x = x (position obj) + x (moveDirection obj) * moveSpeed obj * T,
      y = y (position obj) + y (moveDirection obj) * moveSpeed obj * T\<rparr>
   \<and> moveDirection (GameObject_Update T obj) = moveDirection obj
   \<and> moveSpeed (GameObject_Update T obj) = moveSpeed obj
   \<and> GameObject.more (GameObject_Update T obj) = GameObject.more obj"
  by (simp add: GameObject_Update_def Vector2_add_def Vector2_scale_def)

text \<open>
  C3.  When the position a paddle update computes meets the terrain test of
  \<open>CollideAgainstTerrain\<close> (with the margin of a tenth of the paddle's height), the update is
  rejected: the paddle keeps the position it had before the update, and is not moved to the
  boundary.  The test holds in particular when the paddle's edge, moved inwards by the
  margin, is past the top or the bottom of the terrain.
\<close>

theorem Paddle_Update_rejects:
  assumes "(y (position (GameObject_Update delta p)) + y (sizeV p) * 0.1
              > real_of_int (y winSize) - y (sizeV p) / 2
            \<or> y (position (GameObject_Update delta p)) - y (sizeV p) * 0.1 < y (sizeV p) / 2)
         \<or> (0 \<le> y (sizeV p)
            \<and> (y (position (GameObject_Update delta p)) + y (sizeV p) / 2 - y (sizeV p) * 0.1
                  > real_of_int (y winSize)
               \<or> y (position (GameObject_Update delta p)) - y (sizeV p) / 2 + y (sizeV p) * 0.1 < 0))"
  shows "position (Paddle_Update delta winSize p) = position p
         \<and> Paddle_Update delta winSize p = p"
proof -
  define q where "q = y (position (GameObject_Update delta p))"
  define h where "h = y (sizeV p)"
  have "(q + h * 0.1 > real_of_int (y winSize) - h / 2 \<or> q - h * 0.1 < h / 2)
         \<or> (0 \<le> h \<and> (q + h / 2 - h * 0.1 > real_of_int (y winSize) \<or> q - h / 2 + h * 0.1 < 0))"
    using assms unfolding q_def h_def .
  then have "q + h * 0.1 > real_of_int (y winSize) - h / 2 \<or> q - h * 0.1 < h / 2"
    by (auto simp: field_simps)
  then have c: "y (position (GameObject_Update delta p)) + y (sizeV p) * 0.1
              > real_of_int (y winSize) - y (sizeV p) / 2
            \<or> y (position (GameObject_Update delta p)) - y (sizeV p) * 0.1 < y (sizeV p) / 2"
    unfolding q_def h_def .
  have "Paddle_Update delta winSize p = p"
    unfolding Paddle_Update_def Paddle_CollideAgainstTerrain_def Let_def GameObject_Update_sizeV
    using c by (auto simp: GameObject_Update_revert)
  then show ?thesis by simp
qed

theorem Paddle_Update_rejects_witness:
  "y (position (GameObject_Update 0.1 topPaddle)) = 655
   \<and> Paddle_Update 0.1 skWinSize topPaddle = topPaddle
   \<and> y (position topPaddle) = 625"
proof -
  have q: "y (position (GameObject_Update 0.1 topPaddle)) = 655"
    by (simp add: GameObject_Update_position_y topPaddle_def)
  have h: "y (sizeV topPaddle) = 150"
    by (simp add: topPaddle_def)
  have w: "real_of_int (y skWinSize) = 720"
    by (simp add: skWinSize_def)
  have "y (position (GameObject_Update 0.1 topPaddle)) + y (sizeV topPaddle) * 0.1
              > real_of_int (y skWinSize) - y (sizeV topPaddle) / 2"
    unfolding q h w by simp
  then have "Paddle_Update 0.1 skWinSize topPaddle = topPaddle"
    using Paddle_Update_rejects [where delta = "0.1" and p = topPaddle and winSize = skWinSize]
    by simp
  moreover have "y (position topPaddle) = 625"
    by (simp add: topPaddle_def)
  ultimately show ?thesis using q by simp
qed

section \<open>Properties of the update of one frame\<close>

lemma UpdateObjects_fields:
  "events (UpdateObjects B delta s) = events s @ [UpdateCalled]"
  "sPlayerScores (UpdateObjects B delta s) = sPlayerScores s"
  "sPlaying (UpdateObjects B delta s) = sPlaying s"
  "sRunning (UpdateObjects B delta s) = sRunning s"
  "sInitialized (UpdateObjects B delta s) = sInitialized s"
  "calls (UpdateObjects B delta s) = calls s"
  "sPaddle1 (UpdateObjects B delta s) = Paddle_Update delta skWinSize (sPaddle1 s)"
  "sPaddle2 (UpdateObjects B delta s) = Paddle_Update delta skWinSize (sPaddle2 s)"
  "sBall (UpdateObjects B delta s) =
     Ball_CollideWithTerrain B skWinSize (Ball_Update B delta (sBall s))"
  by (simp_all add: UpdateObjects_def addEvent_def Let_def)

lemma CollideWithPaddles_fields:
  "events (snd (CollideWithPaddles B s)) = events s"
  "sPlayerScores (snd (CollideWithPaddles B s)) = sPlayerScores s"
  "sPlaying (snd (CollideWithPaddles B s)) = sPlaying s"
  "sRunning (snd (CollideWithPaddles B s)) = sRunning s"
  "sInitialized (snd (CollideWithPaddles B s)) = sInitialized s"
  "calls (snd (CollideWithPaddles B s)) = calls s"
  "sPaddle1 (snd (CollideWithPaddles B s)) = sPaddle1 s"
  "sPaddle2 (snd (CollideWithPaddles B s)) = sPaddle2 s"
  by (simp_all add: CollideWithPaddles_def split: prod.splits)

lemma CheckBallSideCollision_events:
  "events (CheckBallSideCollision B s) =
     events s @ [SideCollisionChecked] @
       (if Ball_GetTouchingSide B skWinSize (sBall s) \<noteq> Side_None then [GameStateReset] else [])"
  by (simp add: CheckBallSideCollision_def ResetGameState_def UpdateScores_def addEvent_def Let_def)

lemma OnUpdate_collides:
  "fst (CollideWithPaddles B (UpdateObjects B delta s)) \<Longrightarrow>
   OnUpdate B delta s = snd (CollideWithPaddles B (UpdateObjects B delta s))"
  by (cases "CollideWithPaddles B (UpdateObjects B delta s)") (simp add: OnUpdate_def)

lemma OnUpdate_no_collision:
  "\<not> fst (CollideWithPaddles B (UpdateObjects B delta s)) \<Longrightarrow>
   OnUpdate B delta s =
     CheckBallSideCollision B (snd (CollideWithPaddles B (UpdateObjects B delta s)))"
  by (cases "CollideWithPaddles B (UpdateObjects B delta s)") (simp add: OnUpdate_def)

lemma UpdateScores_Right:
  "length (sPlayerScores s) = 2 \<Longrightarrow>
   sPlayerScores (UpdateScores Side_Right s) = [sPlayerScores s ! 0 + 1, sPlayerScores s ! 1]"
  by (cases "sPlayerScores s"; simp add: UpdateScores_def) (rename_tac a as, case_tac as; simp)

lemma UpdateScores_Left:
  "length (sPlayerScores s) = 2 \<Longrightarrow>
   sPlayerScores (UpdateScores Side_Left s) = [sPlayerScores s ! 0, sPlayerScores s ! 1 + 1]"
  by (cases "sPlayerScores s"; simp add: UpdateScores_def) (rename_tac a as, case_tac as; simp)

lemma UpdateScores_fields:
  "events (UpdateScores side s) = events s"
  "sBall (UpdateScores side s) = sBall s"
  "sPaddle1 (UpdateScores side s) = sPaddle1 s"
  "sPaddle2 (UpdateScores side s) = sPaddle2 s"
  by (simp_all add: UpdateScores_def Let_def)

lemma ResetGameState_fields:
  "events (ResetGameState B s) = events s @ [GameStateReset]"
  "sPlayerScores (ResetGameState B s) = sPlayerScores s"
  "sPlaying (ResetGameState B s) = False"
  "sBall (ResetGameState B s) = Ball_Reset B skWinSize (sBall s)"
  "sPaddle1 (ResetGameState B s) = Paddle_Reset skWinSize (sPaddle1 s)"
  "sPaddle2 (ResetGameState B s) = Paddle_Reset skWinSize (sPaddle2 s)"
  by (simp_all add: ResetGameState_def addEvent_def Let_def)

lemma CheckBallSideCollision_scored:
  "Ball_GetTouchingSide B skWinSize (sBall s) \<noteq> Side_None \<Longrightarrow>
   CheckBallSideCollision B s =
     ResetGameState B (UpdateScores (Ball_GetTouchingSide B skWinSize (sBall s))
       (addEvent SideCollisionChecked s))"
  by (simp add: CheckBallSideCollision_def addEvent_def Let_def)


lemma Paddle_Reset_fields:
  "y (position (Paddle_Reset winSize p)) = real_of_int (y winSize) / 2"
  "x (position (Paddle_Reset winSize p)) = x (position p)"
  "moveSpeed (Paddle_Reset winSize p) = 0"
  "moveDirection (Paddle_Reset winSize p) = \<lparr>x = 0, y = 0\<rparr>"
  by (simp_all add: Paddle_Reset_def)

lemma Paddle_Update_column:
  "x (moveDirection p) = 0 \<Longrightarrow> x (position (Paddle_Update delta winSize p)) = x (position p)"
  by (simp add: Paddle_Update_def Paddle_CollideAgainstTerrain_def Let_def GameObject_Update_def
      Vector2_add_def Vector2_scale_def)

lemma CollideWithPaddles_miss:
  "Ball_CollideWith B (sPaddle1 s) (sBall s) = (False, sBall s) \<Longrightarrow>
   Ball_CollideWith B (sPaddle2 s) (sBall s) = (False, sBall s) \<Longrightarrow>
   CollideWithPaddles B s = (False, s)"
  by (simp add: CollideWithPaddles_def)

lemmas ball_defs = SpecBall_def GameObject_Update_def Vector2_add_def Vector2_scale_def
  Spec_Ball_CollideWithTerrain_def Spec_Ball_CollideWith_def Spec_Ball_GetTouchingSide_def
  skWinSize_def

lemmas paddle_defs = Paddle_Update_def Paddle_CollideAgainstTerrain_def GameObject_Update_def
  Vector2_add_def Vector2_scale_def skWinSize_def

lemma corner_moved:
  "Ball_Update (SpecBall 400 25) 1 (sBall cornerState) =
     \<lparr>position = \<lparr>x = 1320, y = 730\<rparr>, moveDirection = \<lparr>x = 0.6, y = 0.8\<rparr>,
      moveSpeed = 50, radius = 20\<rparr>"
  by (simp add: cornerState_def ball_defs)

lemma corner_ball:
  "sBall (UpdateObjects (SpecBall 400 25) 1 cornerState) =
     \<lparr>position = \<lparr>x = 1320, y = 700\<rparr>, moveDirection = \<lparr>x = 0.6, y = - 0.8\<rparr>,
      moveSpeed = 50, radius = 20\<rparr>"
  unfolding UpdateObjects_fields corner_moved
  by (simp add: ball_defs)

lemma corner_paddles:
  "sPaddle1 (UpdateObjects B 1 cornerState) = sPaddle1 cornerState"
  "sPaddle2 (UpdateObjects B 1 cornerState) = sPaddle2 cornerState"
  unfolding UpdateObjects_fields
  by (simp_all add: cornerState_def paddle_defs)

lemma corner_miss:
  "CollideWithPaddles (SpecBall 400 25) (UpdateObjects (SpecBall 400 25) 1 cornerState) =
     (False, UpdateObjects (SpecBall 400 25) 1 cornerState)"
proof (rule CollideWithPaddles_miss)
  show "Ball_CollideWith (SpecBall 400 25)
          (sPaddle1 (UpdateObjects (SpecBall 400 25) 1 cornerState))
          (sBall (UpdateObjects (SpecBall 400 25) 1 cornerState)) =
        (False, sBall (UpdateObjects (SpecBall 400 25) 1 cornerState))"
    unfolding corner_ball corner_paddles
    by (simp add: cornerState_def SpecBall_def Spec_Ball_CollideWith_def)
  show "Ball_CollideWith (SpecBall 400 25)
          (sPaddle2 (UpdateObjects (SpecBall 400 25) 1 cornerState))
          (sBall (UpdateObjects (SpecBall 400 25) 1 cornerState)) =
        (False, sBall (UpdateObjects (SpecBall 400 25) 1 cornerState))"
    unfolding corner_ball corner_paddles
    by (simp add: cornerState_def SpecBall_def Spec_Ball_CollideWith_def)
qed

lemma corner_side:
  "Ball_GetTouchingSide (SpecBall 400 25) skWinSize
     (sBall (UpdateObjects (SpecBall 400 25) 1 cornerState)) = Side_Right"
  unfolding corner_ball
  by (simp add: SpecBall_def Spec_Ball_GetTouchingSide_def skWinSize_def)

lemma rally_ball:
  "sBall (UpdateObjects (SpecBall 400 25) 1 rallyState) =
     \<lparr>position = \<lparr>x = 1210, y = 360\<rparr>, moveDirection = \<lparr>x = 1, y = 0\<rparr>,
      moveSpeed = 10, radius = 20\<rparr>"
  unfolding UpdateObjects_fields
  by (simp add: rallyState_def ball_defs)

lemma rally_paddles:
  "sPaddle1 (UpdateObjects B 1 rallyState) = sPaddle1 rallyState"
  "sPaddle2 (UpdateObjects B 1 rallyState) = sPaddle2 rallyState"
  unfolding UpdateObjects_fields
  by (simp_all add: rallyState_def paddle_defs)

lemma rally_hit:
  "fst (CollideWithPaddles (SpecBall 400 25) (UpdateObjects (SpecBall 400 25) 1 rallyState))"
  unfolding CollideWithPaddles_def rally_ball rally_paddles
  by (simp add: rallyState_def SpecBall_def Spec_Ball_CollideWith_def)

lemma left_ball:
  "sBall (UpdateObjects (SpecBall 400 25) 1 leftState) =
     \<lparr>position = \<lparr>x = - 35, y = 300\<rparr>, moveDirection = \<lparr>x = - 1, y = 0\<rparr>,
      moveSpeed = 40, radius = 20\<rparr>"
  unfolding UpdateObjects_fields
  by (simp add: leftState_def ball_defs)

lemma left_paddles:
  "sPaddle1 (UpdateObjects B 1 leftState) = (sPaddle1 leftState)\<lparr>position := \<lparr>x = 50, y = 530\<rparr>\<rparr>"
  "sPaddle2 (UpdateObjects B 1 leftState) = sPaddle2 leftState"
  unfolding UpdateObjects_fields
  by (simp_all add: leftState_def paddle_defs)

lemma left_miss:
  "CollideWithPaddles (SpecBall 400 25) (UpdateObjects (SpecBall 400 25) 1 leftState) =
     (False, UpdateObjects (SpecBall 400 25) 1 leftState)"
proof (rule CollideWithPaddles_miss)
  show "Ball_CollideWith (SpecBall 400 25)
          (sPaddle1 (UpdateObjects (SpecBall 400 25) 1 leftState))
          (sBall (UpdateObjects (SpecBall 400 25) 1 leftState)) =
        (False, sBall (UpdateObjects (SpecBall 400 25) 1 leftState))"
    unfolding left_ball left_paddles
    by (simp add: leftState_def SpecBall_def Spec_Ball_CollideWith_def)
  show "Ball_CollideWith (SpecBall 400 25)
          (sPaddle2 (UpdateObjects (SpecBall 400 25) 1 leftState))
          (sBall (UpdateObjects (SpecBall 400 25) 1 leftState)) =
        (False, sBall (UpdateObjects (SpecBall 400 25) 1 leftState))"
    unfolding left_ball left_paddles
    by (simp add: leftState_def SpecBall_def Spec_Ball_CollideWith_def)
qed

lemma left_side:
  "Ball_GetTouchingSide (SpecBall 400 25) skWinSize
     (sBall (UpdateObjects (SpecBall 400 25) 1 leftState)) = Side_Left"
  unfolding left_ball
  by (simp add: SpecBall_def Spec_Ball_GetTouchingSide_def skWinSize_def)

text \<open>
  C2, as the claim states it, fails.  In \<open>cornerState\<close> the ball, as the spec describes it,
  moves to \<open>(1320, 730)\<close>: it touches the top edge, so the vertical bounce is resolved
  (\<open>moveDirection.y\<close> goes from \<open>0.8\<close> to \<open>-0.8\<close>), and in the same frame the side check is
  evaluated, the left player scores and the game state is reset.
\<close>

theorem terrain_bounce_and_score_in_one_frame:
  "Spec_Ball_TouchesTerrain skWinSize (Ball_Update (SpecBall 400 25) 1 (sBall cornerState))
   \<and> y (moveDirection (sBall cornerState)) = 0.8
   \<and> y (moveDirection (sBall (UpdateObjects (SpecBall 400 25) 1 cornerState))) = - 0.8
   \<and> SideCollisionChecked \<in> set (events (OnUpdate (SpecBall 400 25) 1 cornerState))
   \<and> GameStateReset \<in> set (events (OnUpdate (SpecBall 400 25) 1 cornerState))
   \<and> sPlayerScores cornerState = [0, 0]
   \<and> sPlayerScores (OnUpdate (SpecBall 400 25) 1 cornerState) = [1, 0]"
proof -
  have a: "Spec_Ball_TouchesTerrain skWinSize
             (Ball_Update (SpecBall 400 25) 1 (sBall cornerState))"
    unfolding corner_moved by (simp add: Spec_Ball_TouchesTerrain_def skWinSize_def)
  have b: "y (moveDirection (sBall cornerState)) = 0.8" "sPlayerScores cornerState = [0, 0]"
    by (simp_all add: cornerState_def)
  have c: "y (moveDirection (sBall (UpdateObjects (SpecBall 400 25) 1 cornerState))) = - 0.8"
    unfolding corner_ball by simp
  have run: "OnUpdate (SpecBall 400 25) 1 cornerState =
      ResetGameState (SpecBall 400 25) (UpdateScores Side_Right
        (addEvent SideCollisionChecked (UpdateObjects (SpecBall 400 25) 1 cornerState)))"
    by (simp add: OnUpdate_no_collision corner_miss CheckBallSideCollision_scored corner_side)
  have len: "length (sPlayerScores (addEvent SideCollisionChecked
      (UpdateObjects (SpecBall 400 25) 1 cornerState))) = 2"
    by (simp add: addEvent_def UpdateObjects_fields b)
  have d: "events (OnUpdate (SpecBall 400 25) 1 cornerState) =
      [UpdateCalled, SideCollisionChecked, GameStateReset]"
    unfolding run ResetGameState_fields UpdateScores_fields
    by (simp add: addEvent_def UpdateObjects_fields cornerState_def)
  have e: "sPlayerScores (OnUpdate (SpecBall 400 25) 1 cornerState) = [1, 0]"
    unfolding run ResetGameState_fields UpdateScores_Right [OF len]
    by (simp add: addEvent_def UpdateObjects_fields b)
  show ?thesis
    using a b c e by (simp add: d)
qed

text \<open>
  C2, amended.  Whatever the members of \<open>Ball\<close> do, the side check of a frame is evaluated
  exactly when neither call of \<open>CollideWith\<close> reports a resolved paddle collision.  In a frame
  with a resolved paddle collision the update records nothing after \<open>UpdateCalled\<close>: no side
  check and no reset; the scores and the playing flag are unchanged.  The terrain bounce
  has no part in the test.
\<close>

theorem OnUpdate_paddle_bounce_gates_side_check:
  "(SideCollisionChecked \<in> set (drop (length (events s)) (events (OnUpdate B delta s))))
     = (\<not> fst (CollideWithPaddles B (UpdateObjects B delta s)))
   \<and> (fst (CollideWithPaddles B (UpdateObjects B delta s)) \<longrightarrow>
        events (OnUpdate B delta s) = events s @ [UpdateCalled]
        \<and> sPlayerScores (OnUpdate B delta s) = sPlayerScores s
        \<and> sPlaying (OnUpdate B delta s) = sPlaying s)"
proof (cases "fst (CollideWithPaddles B (UpdateObjects B delta s))")
  case True
  then show ?thesis
    by (simp add: OnUpdate_collides CollideWithPaddles_fields UpdateObjects_fields)
next
  case False
  then show ?thesis
    by (simp add: OnUpdate_no_collision CheckBallSideCollision_events
        CollideWithPaddles_fields UpdateObjects_fields)
qed

theorem OnUpdate_paddle_bounce_gates_side_check_witness:
  "fst (CollideWithPaddles (SpecBall 400 25) (UpdateObjects (SpecBall 400 25) 1 rallyState))
   \<and> events (OnUpdate (SpecBall 400 25) 1 rallyState) = [UpdateCalled]
   \<and> sPlayerScores (OnUpdate (SpecBall 400 25) 1 rallyState) = [0, 0]
   \<and> sPlaying (OnUpdate (SpecBall 400 25) 1 rallyState)"
  using OnUpdate_paddle_bounce_gates_side_check [of rallyState "SpecBall 400 25" 1] rally_hit
  by (simp add: rallyState_def)

text \<open>
  C4.  Take a frame in which no paddle collision is resolved and \<open>GetTouchingSide\<close> reports
  a side.  Then the score of the player opposite to that side (index 0, the left player,
  for \<open>Right\<close>; index 1 for \<open>Left\<close>) grows by one, in 32-bit unsigned arithmetic, and the other
  score is unchanged; the update records exactly one reset, as its last step; the playing
  flag is false; the ball is what \<open>Ball::Reset\<close> makes of it; and both paddles are what
  \<open>Paddle::Reset\<close> makes of them: vertically centred and at rest, in the column they were in
  when they only move vertically.
\<close>

theorem OnUpdate_side_crossing_scores:
  assumes "length (sPlayerScores s) = 2"
    and "CollideWithPaddles B (UpdateObjects B delta s) = (False, s5)"
    and "Ball_GetTouchingSide B skWinSize (sBall s5) = side"
    and "side \<noteq> Side_None"
  shows "sPlayerScores (OnUpdate B delta s) =
           (if side = Side_Right then [sPlayerScores s ! 0 + 1, sPlayerScores s ! 1]
            else [sPlayerScores s ! 0, sPlayerScores s ! 1 + 1])
         \<and> events (OnUpdate B delta s) =
             events s @ [UpdateCalled, SideCollisionChecked, GameStateReset]
         \<and> \<not> sPlaying (OnUpdate B delta s)
         \<and> sBall (OnUpdate B delta s) = Ball_Reset B skWinSize (sBall s5)
         \<and> sPaddle1 (OnUpdate B delta s) =
             Paddle_Reset skWinSize (Paddle_Update delta skWinSize (sPaddle1 s))
         \<and> sPaddle2 (OnUpdate B delta s) =
             Paddle_Reset skWinSize (Paddle_Update delta skWinSize (sPaddle2 s))
         \<and> y (position (sPaddle1 (OnUpdate B delta s))) = 360
         \<and> y (position (sPaddle2 (OnUpdate B delta s))) = 360
         \<and> moveSpeed (sPaddle1 (OnUpdate B delta s)) = 0
         \<and> moveSpeed (sPaddle2 (OnUpdate B delta s)) = 0
         \<and> moveDirection (sPaddle1 (OnUpdate B delta s)) = \<lparr>x = 0, y = 0\<rparr>
         \<and> moveDirection (sPaddle2 (OnUpdate B delta s)) = \<lparr>x = 0, y = 0\<rparr>
         \<and> (x (moveDirection (sPaddle1 s)) = 0 \<longrightarrow>
              x (position (sPaddle1 (OnUpdate B delta s))) = x (position (sPaddle1 s)))
         \<and> (x (moveDirection (sPaddle2 s)) = 0 \<longrightarrow>
              x (position (sPaddle2 (OnUpdate B delta s))) = x (position (sPaddle2 s)))"
proof -
  have s5: "s5 = snd (CollideWithPaddles B (UpdateObjects B delta s))"
    using assms(2) by simp
  have len: "length (sPlayerScores (addEvent SideCollisionChecked s5)) = 2"
    using assms(1) by (simp add: s5 addEvent_def CollideWithPaddles_fields UpdateObjects_fields)
  have run: "OnUpdate B delta s =
      ResetGameState B (UpdateScores side (addEvent SideCollisionChecked s5))"
    using assms(2,3,4)
    by (simp add: OnUpdate_no_collision CheckBallSideCollision_scored)
  have sc: "sPlayerScores (addEvent SideCollisionChecked s5) = sPlayerScores s"
    by (simp add: s5 addEvent_def CollideWithPaddles_fields UpdateObjects_fields)
  have scores: "sPlayerScores (OnUpdate B delta s) =
           (if side = Side_Right then [sPlayerScores s ! 0 + 1, sPlayerScores s ! 1]
            else [sPlayerScores s ! 0, sPlayerScores s ! 1 + 1])"
    using assms(4) UpdateScores_Right [OF len] UpdateScores_Left [OF len]
    by (cases side) (simp_all add: run ResetGameState_fields sc)
  have ev: "events (OnUpdate B delta s) =
             events s @ [UpdateCalled, SideCollisionChecked, GameStateReset]"
    by (simp add: run ResetGameState_fields UpdateScores_fields)
       (simp add: s5 addEvent_def CollideWithPaddles_fields UpdateObjects_fields)
  have rest: "\<not> sPlaying (OnUpdate B delta s)"
    "sBall (OnUpdate B delta s) = Ball_Reset B skWinSize (sBall s5)"
    by (simp_all add: run ResetGameState_fields UpdateScores_fields)
       (simp_all add: s5 addEvent_def CollideWithPaddles_fields UpdateObjects_fields)
  have p1: "sPaddle1 (OnUpdate B delta s) =
             Paddle_Reset skWinSize (Paddle_Update delta skWinSize (sPaddle1 s))"
    by (simp add: run ResetGameState_fields UpdateScores_fields)
       (simp add: s5 addEvent_def CollideWithPaddles_fields UpdateObjects_fields)
  have p2: "sPaddle2 (OnUpdate B delta s) =
             Paddle_Reset skWinSize (Paddle_Update delta skWinSize (sPaddle2 s))"
    by (simp add: run ResetGameState_fields UpdateScores_fields)
       (simp add: s5 addEvent_def CollideWithPaddles_fields UpdateObjects_fields)
  have h: "real_of_int (y skWinSize) / 2 = 360"
    by (simp add: skWinSize_def)
  have fixed: "y (position (sPaddle1 (OnUpdate B delta s))) = 360"
    "y (position (sPaddle2 (OnUpdate B delta s))) = 360"
    "moveSpeed (sPaddle1 (OnUpdate B delta s)) = 0"
    "moveSpeed (sPaddle2 (OnUpdate B delta s)) = 0"
    "moveDirection (sPaddle1 (OnUpdate B delta s)) = \<lparr>x = 0, y = 0\<rparr>"
    "moveDirection (sPaddle2 (OnUpdate B delta s)) = \<lparr>x = 0, y = 0\<rparr>"
    unfolding p1 p2 Paddle_Reset_fields h by simp_all
  have col: "x (moveDirection (sPaddle1 s)) = 0 \<longrightarrow>
              x (position (sPaddle1 (OnUpdate B delta s))) = x (position (sPaddle1 s))"
    "x (moveDirection (sPaddle2 s)) = 0 \<longrightarrow>
              x (position (sPaddle2 (OnUpdate B delta s))) = x (position (sPaddle2 s))"
    unfolding p1 p2 Paddle_Reset_fields by (simp_all add: Paddle_Update_column)
  show ?thesis
    using scores ev rest p1 p2 fixed col by simp
qed

theorem OnUpdate_side_crossing_scores_witness:
  "sPlayerScores leftState = [3, 7]
   \<and> sPlayerScores (OnUpdate (SpecBall 400 25) 1 leftState) = [3, 8]
   \<and> events (OnUpdate (SpecBall 400 25) 1 leftState) =
       [UpdateCalled, SideCollisionChecked, GameStateReset]
   \<and> \<not> sPlaying (OnUpdate (SpecBall 400 25) 1 leftState)
   \<and> position (sBall (OnUpdate (SpecBall 400 25) 1 leftState)) = \<lparr>x = 640, y = 360\<rparr>
   \<and> position (sPaddle1 (OnUpdate (SpecBall 400 25) 1 leftState)) = \<lparr>x = 50, y = 360\<rparr>
   \<and> moveSpeed (sPaddle1 (OnUpdate (SpecBall 400 25) 1 leftState)) = 0"
proof -
  have len: "length (sPlayerScores leftState) = 2"
    by (simp add: leftState_def)
  have neq: "Side_Left \<noteq> Side_None"
    by simp
  note inst = OnUpdate_side_crossing_scores [OF len left_miss left_side neq]
  have p1: "Paddle_Update 1 skWinSize (sPaddle1 leftState) =
      (sPaddle1 leftState)\<lparr>position := \<lparr>x = 50, y = 530\<rparr>\<rparr>"
    using left_paddles(1) [of "SpecBall 400 25"] unfolding UpdateObjects_fields .
  show ?thesis
    using inst unfolding left_ball p1
    by (simp add: leftState_def SpecBall_def Spec_Ball_Reset_def Paddle_Reset_def skWinSize_def)
qed

section \<open>Properties of key events\<close>

lemma RandomSignFloat_square: "RandomSignFloat b * RandomSignFloat b = 1"
  by (simp add: RandomSignFloat_def)

lemma RandomSignFloat_abs: "\<bar>RandomSignFloat b\<bar> = 1"
  by (simp add: RandomSignFloat_def)

lemma Normalize_diagonal:
  "Normalize \<lparr>x = RandomSignFloat a, y = RandomSignFloat b\<rparr> =
     \<lparr>x = RandomSignFloat a / sqrt 2, y = RandomSignFloat b / sqrt 2\<rparr>"
  by (simp add: Normalize_def Let_def RandomSignFloat_square)

lemma inv_sqrt2_bounds: "0.707 < 1 / sqrt 2" "1 / sqrt 2 < 0.708"
proof -
  have lo: "sqrt 2 < 1.4144"
    by (rule real_less_lsqrt) (simp_all add: power2_eq_square)
  have hi: "1.4125 < sqrt 2"
    by (rule real_less_rsqrt) (simp add: power2_eq_square)
  have pos: "0 < sqrt 2" by simp
  show "0.707 < 1 / sqrt 2"
    using lo pos by (simp add: field_simps)
  show "1 / sqrt 2 < 0.708"
    using hi pos by (simp add: field_simps)
qed

lemma LaunchBall_fields:
  "sPlaying (LaunchBall B rnd s) = sPlaying s"
  "moveSpeed (sBall (LaunchBall B rnd s)) = Ball_skDefaultMoveSpeed B"
  "moveDirection (sBall (LaunchBall B rnd s)) =
     \<lparr>x = RandomSignFloat (fst rnd) / sqrt 2, y = RandomSignFloat (snd rnd) / sqrt 2\<rparr>"
  by (simp_all add: LaunchBall_def Let_def Normalize_diagonal)

lemma OnKeyDown_fields:
  "sPlaying (OnKeyDown P key s) = sPlaying s" "sBall (OnKeyDown P key s) = sBall s"
  "events (OnKeyDown P key s) = events s" "sRunning (OnKeyDown P key s) = sRunning s"
  "sInitialized (OnKeyDown P key s) = sInitialized s" "calls (OnKeyDown P key s) = calls s"
  by (simp_all add: OnKeyDown_def)

lemma OnKeyUp_fields:
  "sPlaying (OnKeyUp P key s) = sPlaying s" "sBall (OnKeyUp P key s) = sBall s"
  "events (OnKeyUp P key s) = events s" "sRunning (OnKeyUp P key s) = sRunning s"
  "sInitialized (OnKeyUp P key s) = sInitialized s" "calls (OnKeyUp P key s) = calls s"
  by (simp_all add: OnKeyUp_def)

text \<open>
  C5.  A press of the launch key while the match is idle sets the playing flag, sets the
  ball's speed to \<open>Ball::skDefaultMoveSpeed\<close> and its direction to the normalised vector of
  two random signs: a unit vector whose components both have absolute value \<open>1 / sqrt 2\<close>,
  between \<open>0.707\<close> and \<open>0.708\<close>.  While the match is playing no key event launches the ball:
  the flag stays set and the ball is untouched.  While it is idle, a release of any key
  and a press of any other key change nothing.
\<close>

theorem OnKeyEvent_launch:
  "(\<not> sPlaying s \<longrightarrow>
      sPlaying (OnKeyEvent B P rnd VK_SPACE True s)
      \<and> moveSpeed (sBall (OnKeyEvent B P rnd VK_SPACE True s)) = Ball_skDefaultMoveSpeed B
      \<and> moveDirection (sBall (OnKeyEvent B P rnd VK_SPACE True s)) =
          \<lparr>x = RandomSignFloat (fst rnd) / sqrt 2, y = RandomSignFloat (snd rnd) / sqrt 2\<rparr>
      \<and> (x (moveDirection (sBall (OnKeyEvent B P rnd VK_SPACE True s))))\<^sup>2
          + (y (moveDirection (sBall (OnKeyEvent B P rnd VK_SPACE True s))))\<^sup>2 = 1
      \<and> 0.707 < \<bar>x (moveDirection (sBall (OnKeyEvent B P rnd VK_SPACE True s)))\<bar>
      \<and> \<bar>x (moveDirection (sBall (OnKeyEvent B P rnd VK_SPACE True s)))\<bar> < 0.708
      \<and> 0.707 < \<bar>y (moveDirection (sBall (OnKeyEvent B P rnd VK_SPACE True s)))\<bar>
      \<and> \<bar>y (moveDirection (sBall (OnKeyEvent B P rnd VK_SPACE True s)))\<bar> < 0.708)
   \<and> (sPlaying s \<longrightarrow>
        sPlaying (OnKeyEvent B P rnd key pressed s)
        \<and> sBall (OnKeyEvent B P rnd key pressed s) = sBall s)
   \<and> (\<not> sPlaying s \<and> (\<not> pressed \<or> key \<noteq> VK_SPACE) \<longrightarrow>
        OnKeyEvent B P rnd key pressed s = s)"
proof -
  have idle: "\<not> sPlaying s \<Longrightarrow>
      OnKeyEvent B P rnd VK_SPACE True s = LaunchBall B rnd (s\<lparr>sPlaying := True\<rparr>)"
    by (simp add: OnKeyEvent_def)
  have ab: "\<bar>RandomSignFloat b / sqrt 2\<bar> = 1 / sqrt 2" for b
    by (simp add: RandomSignFloat_abs)
  have sq: "(RandomSignFloat a / sqrt 2)\<^sup>2 + (RandomSignFloat b / sqrt 2)\<^sup>2 = 1" for a b
    by (simp add: power_divide power2_eq_square RandomSignFloat_square)
  have launch: "\<not> sPlaying s \<longrightarrow>
      sPlaying (OnKeyEvent B P rnd VK_SPACE True s)
      \<and> moveSpeed (sBall (OnKeyEvent B P rnd VK_SPACE True s)) = Ball_skDefaultMoveSpeed B
      \<and> moveDirection (sBall (OnKeyEvent B P rnd VK_SPACE True s)) =
          \<lparr>x = RandomSignFloat (fst rnd) / sqrt 2, y = RandomSignFloat (snd rnd) / sqrt 2\<rparr>
      \<and> (x (moveDirection (sBall (OnKeyEvent B P rnd VK_SPACE True s))))\<^sup>2
          + (y (moveDirection (sBall (OnKeyEvent B P rnd VK_SPACE True s))))\<^sup>2 = 1
      \<and> 0.707 < \<bar>x (moveDirection (sBall (OnKeyEvent B P rnd VK_SPACE True s)))\<bar>
      \<and> \<bar>x (moveDirection (sBall (OnKeyEvent B P rnd VK_SPACE True s)))\<bar> < 0.708
      \<and> 0.707 < \<bar>y (moveDirection (sBall (OnKeyEvent B P rnd VK_SPACE True s)))\<bar>
      \<and> \<bar>y (moveDirection (sBall (OnKeyEvent B P rnd VK_SPACE True s)))\<bar> < 0.708"
  proof
    assume n: "\<not> sPlaying s"
    show "sPlaying (OnKeyEvent B P rnd VK_SPACE True s)
      \<and> moveSpeed (sBall (OnKeyEvent B P rnd VK_SPACE True s)) = Ball_skDefaultMoveSpeed B
      \<and> moveDirection (sBall (OnKeyEvent B P rnd VK_SPACE True s)) =
          \<lparr>x = RandomSignFloat (fst rnd) / sqrt 2, y = RandomSignFloat (snd rnd) / sqrt 2\<rparr>
      \<and> (x (moveDirection (sBall (OnKeyEvent B P rnd VK_SPACE True s))))\<^sup>2
          + (y (moveDirection (sBall (OnKeyEvent B P rnd VK_SPACE True s))))\<^sup>2 = 1
      \<and> 0.707 < \<bar>x (moveDirection (sBall (OnKeyEvent B P rnd VK_SPACE True s)))\<bar>
      \<and> \<bar>x (moveDirection (sBall (OnKeyEvent B P rnd VK_SPACE True s)))\<bar> < 0.708
      \<and> 0.707 < \<bar>y (moveDirection (sBall (OnKeyEvent B P rnd VK_SPACE True s)))\<bar>
      \<and> \<bar>y (moveDirection (sBall (OnKeyEvent B P rnd VK_SPACE True s)))\<bar> < 0.708"
      unfolding idle [OF n] LaunchBall_fields
      using inv_sqrt2_bounds by (simp add: ab sq del: abs_divide)
  qed
  have playing: "sPlaying s \<longrightarrow>
        sPlaying (OnKeyEvent B P rnd key pressed s)
        \<and> sBall (OnKeyEvent B P rnd key pressed s) = sBall s"
    by (simp add: OnKeyEvent_def OnKeyDown_fields OnKeyUp_fields)
  have other: "\<not> sPlaying s \<and> (\<not> pressed \<or> key \<noteq> VK_SPACE) \<longrightarrow>
        OnKeyEvent B P rnd key pressed s = s"
    by (auto simp: OnKeyEvent_def)
  show ?thesis
    using launch playing other by blast
qed

theorem OnKeyEvent_launch_witness:
  "\<not> sPlaying idleState
   \<and> sPlaying (OnKeyEvent (SpecBall 400 25) stillPaddles (True, False) VK_SPACE True idleState)
   \<and> moveSpeed (sBall (OnKeyEvent (SpecBall 400 25) stillPaddles (True, False) VK_SPACE True
        idleState)) = 400
   \<and> moveDirection (sBall (OnKeyEvent (SpecBall 400 25) stillPaddles (True, False) VK_SPACE True
        idleState)) = \<lparr>x = 1 / sqrt 2, y = - 1 / sqrt 2\<rparr>
   \<and> OnKeyEvent (SpecBall 400 25) stillPaddles (True, False) VK_SPACE False idleState = idleState
   \<and> sPlaying rallyState
   \<and> sBall (OnKeyEvent (SpecBall 400 25) stillPaddles (True, False) VK_SPACE True rallyState) =
       sBall rallyState"
proof -
  have n: "\<not> sPlaying idleState"
    by (simp add: idleState_def)
  have p: "sPlaying rallyState"
    by (simp add: rallyState_def)
  have idle: "sPlaying (OnKeyEvent (SpecBall 400 25) stillPaddles (True, False) VK_SPACE True
        idleState)
   \<and> moveSpeed (sBall (OnKeyEvent (SpecBall 400 25) stillPaddles (True, False) VK_SPACE True
        idleState)) = 400
   \<and> moveDirection (sBall (OnKeyEvent (SpecBall 400 25) stillPaddles (True, False) VK_SPACE True
        idleState)) = \<lparr>x = 1 / sqrt 2, y = - 1 / sqrt 2\<rparr>
   \<and> OnKeyEvent (SpecBall 400 25) stillPaddles (True, False) VK_SPACE False idleState = idleState"
    using OnKeyEvent_launch [of idleState "SpecBall 400 25" stillPaddles "(True, False)"
        VK_SPACE False] n
    by (simp add: SpecBall_def RandomSignFloat_def)
  have playing: "sBall (OnKeyEvent (SpecBall 400 25) stillPaddles (True, False) VK_SPACE True
        rallyState) = sBall rallyState"
    using OnKeyEvent_launch [of rallyState "SpecBall 400 25" stillPaddles "(True, False)"
        VK_SPACE True] p
    by blast
  show ?thesis
    using n p idle playing by blast
qed

section \<open>Properties of the frame loop\<close>

lemma LaunchBall_frame:
  "events (LaunchBall B rnd s) = events s" "sRunning (LaunchBall B rnd s) = sRunning s"
  "sInitialized (LaunchBall B rnd s) = sInitialized s" "calls (LaunchBall B rnd s) = calls s"
  by (simp_all add: LaunchBall_def Let_def)

lemma OnKeyEvent_frame:
  "events (OnKeyEvent B P rnd key pressed s) = events s"
  "sRunning (OnKeyEvent B P rnd key pressed s) = sRunning s"
  "sInitialized (OnKeyEvent B P rnd key pressed s) = sInitialized s"
  "calls (OnKeyEvent B P rnd key pressed s) = calls s"
  by (simp_all add: OnKeyEvent_def OnKeyDown_def OnKeyUp_def LaunchBall_frame)

lemma fold_OnKeyEvent_frame:
  "events (fold (\<lambda>ke. OnKeyEvent B P rnd (fst ke) (snd ke)) kes s) = events s
   \<and> sRunning (fold (\<lambda>ke. OnKeyEvent B P rnd (fst ke) (snd ke)) kes s) = sRunning s
   \<and> sInitialized (fold (\<lambda>ke. OnKeyEvent B P rnd (fst ke) (snd ke)) kes s) = sInitialized s
   \<and> calls (fold (\<lambda>ke. OnKeyEvent B P rnd (fst ke) (snd ke)) kes s) = calls s"
  by (induction kes arbitrary: s) (simp_all add: OnKeyEvent_frame)

lemma PollEvents_frame:
  "fst (PollEvents B P inp s) = pollResult inp"
  "events (snd (PollEvents B P inp s)) = events s @ [PollEventsCalled (pollResult inp)]"
  "sInitialized (snd (PollEvents B P inp s)) = sInitialized s"
  "calls (snd (PollEvents B P inp s)) = calls s"
  by (simp_all add: PollEvents_def fold_OnKeyEvent_frame addEvent_def)

lemma CheckBallSideCollision_frame:
  "sRunning (CheckBallSideCollision B s) = sRunning s"
  "sInitialized (CheckBallSideCollision B s) = sInitialized s"
  "calls (CheckBallSideCollision B s) = calls s"
  "\<exists>ev. events (CheckBallSideCollision B s) = events s @ ev \<and> filter isLoopEvent ev = []"
  by (simp_all add: CheckBallSideCollision_def ResetGameState_def UpdateScores_def addEvent_def
      Let_def)

lemma OnUpdate_cases:
  "OnUpdate B delta s =
     (if fst (CollideWithPaddles B (UpdateObjects B delta s))
      then snd (CollideWithPaddles B (UpdateObjects B delta s))
      else CheckBallSideCollision B (snd (CollideWithPaddles B (UpdateObjects B delta s))))"
  by (cases "CollideWithPaddles B (UpdateObjects B delta s)") (simp add: OnUpdate_def)

lemma OnUpdate_frame:
  "sRunning (OnUpdate B delta s) = sRunning s"
  "sInitialized (OnUpdate B delta s) = sInitialized s"
  "calls (OnUpdate B delta s) = calls s"
  by (simp_all add: OnUpdate_cases CheckBallSideCollision_frame CollideWithPaddles_fields
      UpdateObjects_fields)

lemma OnUpdate_events:
  "\<exists>ev. events (OnUpdate B delta s) = events s @ UpdateCalled # ev \<and> filter isLoopEvent ev = []"
proof (cases "fst (CollideWithPaddles B (UpdateObjects B delta s))")
  case True
  then show ?thesis
    by (simp add: OnUpdate_cases CollideWithPaddles_fields UpdateObjects_fields)
next
  case False
  obtain ev where "events (CheckBallSideCollision B
        (snd (CollideWithPaddles B (UpdateObjects B delta s)))) =
      events (snd (CollideWithPaddles B (UpdateObjects B delta s))) @ ev"
    and "filter isLoopEvent ev = []"
    using CheckBallSideCollision_frame(4) by blast
  then show ?thesis
    using False by (simp add: OnUpdate_cases CollideWithPaddles_fields UpdateObjects_fields)
qed

lemma RunBody_unfold:
  "RunBody B P inp s =
     OnRender (OnUpdate B (timeNow inp - sLastTime (snd (PollEvents B P inp s)))
       ((snd (PollEvents B P inp s))\<lparr>sRunning := pollResult inp, sLastTime := timeNow inp\<rparr>))"
proof (cases "PollEvents B P inp s")
  case (Pair r s1)
  then have "r = pollResult inp"
    using PollEvents_frame(1) [of B P inp s] by simp
  then show ?thesis
    using Pair by (simp add: RunBody_def GetTimeDelta_def Let_def)
qed

lemma RunBody_frame:
  "sRunning (RunBody B P inp s) = pollResult inp"
  "sInitialized (RunBody B P inp s) = sInitialized s"
  "calls (RunBody B P inp s) = calls s"
  by (simp_all add: RunBody_unfold OnRender_def addEvent_def OnUpdate_frame PollEvents_frame)

lemma RunBody_events:
  "\<exists>ev. events (RunBody B P inp s) = events s @ ev
        \<and> filter isLoopEvent ev = [PollEventsCalled (pollResult inp), UpdateCalled, RenderCalled]"
proof -
  obtain ev where "events (OnUpdate B (timeNow inp - sLastTime (snd (PollEvents B P inp s)))
       ((snd (PollEvents B P inp s))\<lparr>sRunning := pollResult inp, sLastTime := timeNow inp\<rparr>)) =
     events ((snd (PollEvents B P inp s))\<lparr>sRunning := pollResult inp, sLastTime := timeNow inp\<rparr>)
       @ UpdateCalled # ev" and "filter isLoopEvent ev = []"
    using OnUpdate_events by blast
  then have "events (RunBody B P inp s) =
      events s @ ([PollEventsCalled (pollResult inp), UpdateCalled] @ ev @ [RenderCalled])"
    by (simp add: RunBody_unfold OnRender_def addEvent_def PollEvents_frame)
  moreover have "filter isLoopEvent ([PollEventsCalled (pollResult inp), UpdateCalled] @ ev
      @ [RenderCalled]) = [PollEventsCalled (pollResult inp), UpdateCalled, RenderCalled]"
    using \<open>filter isLoopEvent ev = []\<close> by simp
  ultimately show ?thesis by blast
qed

lemma RunLoop_stops:
  assumes "sRunning s" and "\<forall>m<n. pollResult (env (i + m))" and "\<not> pollResult (env (i + n))"
  shows "RunLoop B P env i s = Some (RunBodies B P env i (Suc n) s)
         \<and> \<not> sRunning (RunBodies B P env i (Suc n) s)
         \<and> (\<exists>ev. events (RunBodies B P env i (Suc n) s) = events s @ ev
               \<and> filter isLoopEvent ev =
                   concat (replicate n [PollEventsCalled True, UpdateCalled, RenderCalled])
                     @ [PollEventsCalled False, UpdateCalled, RenderCalled])"
  using assms
proof (induction n arbitrary: i s)
  case 0
  then have stop: "\<not> pollResult (env i)" by simp
  have "RunLoop B P env i s = RunLoop B P env (i + 1) (RunBody B P (env i) s)"
    using "0.prems"(1) by (subst RunLoop.simps) simp
  also have "\<dots> = Some (RunBody B P (env i) s)"
    using stop by (subst RunLoop.simps) (simp add: RunBody_frame)
  finally have "RunLoop B P env i s = Some (RunBodies B P env i (Suc 0) s)"
    by simp
  moreover have "\<not> sRunning (RunBodies B P env i (Suc 0) s)"
    using stop by (simp add: RunBody_frame)
  moreover have "\<exists>ev. events (RunBodies B P env i (Suc 0) s) = events s @ ev
               \<and> filter isLoopEvent ev =
                   concat (replicate 0 [PollEventsCalled True, UpdateCalled, RenderCalled])
                     @ [PollEventsCalled False, UpdateCalled, RenderCalled]"
    using RunBody_events [of B P "env i" s] stop by simp
  ultimately show ?case by blast
next
  case (Suc n)
  have go: "pollResult (env i)"
    using Suc.prems(2) by (metis add.right_neutral zero_less_Suc)
  have run: "sRunning (RunBody B P (env i) s)"
    using go by (simp add: RunBody_frame)
  have later: "\<forall>m<n. pollResult (env (Suc i + m))"
    using Suc.prems(2) by (metis Suc_less_eq add_Suc_right add_Suc)
  have last: "\<not> pollResult (env (Suc i + n))"
    using Suc.prems(3) by simp
  note IH = Suc.IH [OF run later last]
  obtain ev1 where ev1: "events (RunBody B P (env i) s) = events s @ ev1"
    "filter isLoopEvent ev1 = [PollEventsCalled True, UpdateCalled, RenderCalled]"
    using RunBody_events [of B P "env i" s] go by auto
  obtain ev2 where ev2:
    "events (RunBodies B P env (Suc i) (Suc n) (RunBody B P (env i) s)) =
       events (RunBody B P (env i) s) @ ev2"
    "filter isLoopEvent ev2 =
       concat (replicate n [PollEventsCalled True, UpdateCalled, RenderCalled])
         @ [PollEventsCalled False, UpdateCalled, RenderCalled]"
    using IH by blast
  have "RunLoop B P env i s = RunLoop B P env (Suc i) (RunBody B P (env i) s)"
    using Suc.prems(1) by (subst RunLoop.simps) simp
  then have "RunLoop B P env i s = Some (RunBodies B P env i (Suc (Suc n)) s)"
    using IH by simp
  moreover have "\<not> sRunning (RunBodies B P env i (Suc (Suc n)) s)"
    using IH by simp
  moreover have "events (RunBodies B P env i (Suc (Suc n)) s) = events s @ (ev1 @ ev2)"
    using ev1(1) ev2(1) by simp
  moreover have "filter isLoopEvent (ev1 @ ev2) =
      concat (replicate (Suc n) [PollEventsCalled True, UpdateCalled, RenderCalled])
        @ [PollEventsCalled False, UpdateCalled, RenderCalled]"
    using ev1(2) ev2(2) by simp
  ultimately show ?case by blast
qed


lemma ResetGameState_frame:
  "sRunning (ResetGameState B s) = sRunning s"
  "sInitialized (ResetGameState B s) = sInitialized s"
  "calls (ResetGameState B s) = calls s"
  "events (ResetGameState B s) = events s @ [GameStateReset]"
  by (simp_all add: ResetGameState_def addEvent_def Let_def)

lemma OnBeginRun_frame:
  "sRunning (OnBeginRun B s) = sRunning s"
  "sInitialized (OnBeginRun B s) = sInitialized s"
  "calls (OnBeginRun B s) = calls s"
  "events (OnBeginRun B s) = events s @ [BeginRunCalled, GameStateReset]"
  by (simp_all add: OnBeginRun_def PositionPaddlesOnTerrain_def Let_def ResetGameState_frame
      addEvent_def)

text \<open>
  C8.  Let \<open>Run\<close> be called on an initialised game that is not running, and let the poll of
  iteration \<open>n\<close> be the first to return false.  Then \<open>Run\<close> returns, after exactly \<open>n + 1\<close>
  executions of the loop body: the poll, the update and the render of each of the first \<open>n\<close>
  iterations, then the poll that returns false followed by one more update and one more
  render, and no further poll; the last step is \<open>OnFinishRun\<close>.
\<close>

theorem Run_one_more_frame_after_shutdown:
  assumes "sInitialized s" and "\<not> sRunning s"
    and "\<forall>m<n. pollResult (env m)" and "\<not> pollResult (env n)"
  shows "\<exists>s'. Run B P env s = Some s'
           \<and> s' = OnFinishRun (RunBodies B P env 0 (Suc n) (OnBeginRun B (s\<lparr>sRunning := True\<rparr>)))
           \<and> \<not> sRunning s'
           \<and> filter isLoopEvent (drop (length (events s)) (events s')) =
               concat (replicate n [PollEventsCalled True, UpdateCalled, RenderCalled])
                 @ [PollEventsCalled False, UpdateCalled, RenderCalled]
           \<and> last (events s') = FinishRunCalled"
proof -
  define s1 where "s1 = OnBeginRun B (s\<lparr>sRunning := True\<rparr>)"
  have run1: "sRunning s1"
    by (simp add: s1_def OnBeginRun_frame)
  have polls: "\<forall>m<n. pollResult (env (0 + m))" "\<not> pollResult (env (0 + n))"
    using assms(3,4) by simp_all
  note loop = RunLoop_stops [OF run1 polls, of B P]
  obtain ev where ev: "events (RunBodies B P env 0 (Suc n) s1) = events s1 @ ev"
    "filter isLoopEvent ev =
       concat (replicate n [PollEventsCalled True, UpdateCalled, RenderCalled])
         @ [PollEventsCalled False, UpdateCalled, RenderCalled]"
    using loop by blast
  have r: "Run B P env s = Some (OnFinishRun (RunBodies B P env 0 (Suc n) s1))"
    using assms(1,2) loop by (simp add: Run_def s1_def)
  have stopped: "\<not> sRunning (OnFinishRun (RunBodies B P env 0 (Suc n) s1))"
    using loop by (simp add: OnFinishRun_def addEvent_def del: RunBodies.simps)
  have b: "events s1 = events s @ [BeginRunCalled, GameStateReset]"
    by (simp add: s1_def OnBeginRun_frame)
  have e: "events (OnFinishRun (RunBodies B P env 0 (Suc n) s1)) =
      events s @ ([BeginRunCalled, GameStateReset] @ ev @ [FinishRunCalled])"
    by (simp add: OnFinishRun_def addEvent_def ev(1) b del: RunBodies.simps)
  have f: "filter isLoopEvent (drop (length (events s))
        (events (OnFinishRun (RunBodies B P env 0 (Suc n) s1)))) =
      concat (replicate n [PollEventsCalled True, UpdateCalled, RenderCalled])
        @ [PollEventsCalled False, UpdateCalled, RenderCalled]"
    unfolding e using ev(2) by simp
  have l: "last (events (OnFinishRun (RunBodies B P env 0 (Suc n) s1))) = FinishRunCalled"
    unfolding e by simp
  show ?thesis
    using r stopped f l unfolding s1_def by blast
qed

theorem Run_one_more_frame_after_shutdown_witness:
  "sInitialized readyState \<and> \<not> sRunning readyState
   \<and> pollResult (threeFrames 0) \<and> pollResult (threeFrames 1) \<and> \<not> pollResult (threeFrames 2)
   \<and> (\<exists>s'. Run (SpecBall 400 25) stillPaddles threeFrames readyState = Some s'
          \<and> \<not> sRunning s'
          \<and> filter isLoopEvent (events s') =
              [PollEventsCalled True, UpdateCalled, RenderCalled,
               PollEventsCalled True, UpdateCalled, RenderCalled,
               PollEventsCalled False, UpdateCalled, RenderCalled])"
proof -
  have a: "sInitialized readyState" "\<not> sRunning readyState" "events readyState = []"
    by (simp_all add: readyState_def idleState_def)
  have b: "\<forall>m<2. pollResult (threeFrames m)" "\<not> pollResult (threeFrames 2)"
    by (simp_all add: threeFrames_def)
  have c: "pollResult (threeFrames 0)" "pollResult (threeFrames 1)"
    by (simp_all add: threeFrames_def)
  have d: "concat (replicate 2 [PollEventsCalled True, UpdateCalled, RenderCalled]) =
      [PollEventsCalled True, UpdateCalled, RenderCalled,
       PollEventsCalled True, UpdateCalled, RenderCalled]"
    by (simp add: numeral_2_eq_2)
  obtain s' where s': "Run (SpecBall 400 25) stillPaddles threeFrames readyState = Some s'"
    "\<not> sRunning s'"
    "filter isLoopEvent (drop (length (events readyState)) (events s')) =
       concat (replicate 2 [PollEventsCalled True, UpdateCalled, RenderCalled])
         @ [PollEventsCalled False, UpdateCalled, RenderCalled]"
    using Run_one_more_frame_after_shutdown [OF a(1,2) b, of "SpecBall 400 25" stillPaddles]
    by blast
  have "filter isLoopEvent (events s') =
       [PollEventsCalled True, UpdateCalled, RenderCalled,
        PollEventsCalled True, UpdateCalled, RenderCalled,
        PollEventsCalled False, UpdateCalled, RenderCalled]"
    using s'(3) unfolding a(3) d by simp
  then show ?thesis
    using a(1,2) c b(2) s'(1,2) by blast
qed

section \<open>The protocol of Init, Run and Cleanup\<close>

lemma liveItems_append:
  "liveItems L (tr @ tr') = (case liveItems L tr of None \<Rightarrow> None | Some L' \<Rightarrow> liveItems L' tr')"
  by (induction L tr rule: liveItems.induct) simp_all

lemma liveItems_inits:
  "i \<le> k \<Longrightarrow> liveItems {0..<i} (map (\<lambda>j. InitCall j True) [i..<k]) = Some {0..<k}"
proof (induction "k - i" arbitrary: i)
  case 0
  then show ?case by simp
next
  case (Suc d)
  then have ik: "i < k" by simp
  have "insert i {0..<i} = {0..<Suc i}"
    by (simp add: atLeast0_lessThan_Suc)
  moreover have "liveItems {0..<Suc i} (map (\<lambda>j. InitCall j True) [Suc i..<k]) = Some {0..<k}"
    using Suc.hyps(1) [of "Suc i"] Suc.hyps(2) ik by simp
  ultimately show ?case
    using ik by (simp add: upt_conv_Cons)
qed

lemma liveItems_cleanups:
  "liveItems {0..<k} (map CleanupCall (rev [0..<k])) = Some {}"
proof (induction k)
  case 0
  show ?case by simp
next
  case (Suc k)
  have "{0..<Suc k} - {k} = {0..<k}"
    by auto
  then show ?case
    using Suc.IH by simp
qed

lemma first_failure:
  assumes "\<not> (\<forall>j<(n::nat). Q j)"
  shows "\<exists>k<n. \<not> Q k \<and> (\<forall>j<k. Q j)"
proof -
  have "\<exists>j. j < n \<and> \<not> Q j"
    using assms by blast
  then obtain k where k: "k < n \<and> \<not> Q k" and least: "\<forall>m<k. \<not> (m < n \<and> \<not> Q m)"
    using exists_least_iff [of "\<lambda>j. j < n \<and> \<not> Q j"] by blast
  have "\<forall>j<k. Q j"
    using least k by (meson less_trans)
  then show ?thesis
    using k by blast
qed

lemma TryInitItems_live:
  assumes "length ls < 2 ^ 31" and "liveItems {} tr = Some {}"
  shows "liveItems {} (snd (snd (TryInitItems ls (w, tr)))) =
           Some (if fst (TryInitItems ls (w, tr)) then {0..<length ls} else {})"
proof (cases "\<forall>j<length ls. initOk ls j w")
  case True
  have "TryInitItems ls (w, tr) =
      (True, initWorld ls (length ls) w, tr @ map (\<lambda>j. InitCall j True) [0..<length ls])"
    using TryInitItemsLoop_ok [of 0 ls w tr] True by (simp add: TryInitItems_def)
  then show ?thesis
    using assms(2) liveItems_inits [of 0 "length ls"] by (simp add: liveItems_append)
next
  case False
  then obtain k where k: "k < length ls" "\<not> initOk ls k w" "\<forall>j<k. initOk ls j w"
    using first_failure [of "length ls" "\<lambda>j. initOk ls j w"] by blast
  have run: "TryInitItems ls (w, tr) =
      (False, cleanupWorld ls k (initWorld ls (Suc k) w),
       tr @ map (\<lambda>j. InitCall j True) [0..<k] @ [InitCall k False]
          @ map CleanupCall (rev [0..<k]))"
    using TryInitItemsLoop_fail [of ls k 0 w tr] assms(1) k by (simp add: TryInitItems_def)
  have "liveItems {} (map (\<lambda>j. InitCall j True) [0..<k] @ [InitCall k False]
          @ map CleanupCall (rev [0..<k])) = Some {}"
    using liveItems_inits [of 0 k] liveItems_cleanups [of k]
    by (simp add: liveItems_append)
  then show ?thesis
    using assms(2) by (simp add: run liveItems_append)
qed

lemma CleanupItems_live:
  assumes "length ls < 2 ^ 31" and "liveItems {} tr = Some {0..<length ls}"
  shows "liveItems {} (snd (CleanupItems ls (w, tr))) = Some {}"
  using assms liveItems_cleanups [of "length ls"]
  by (simp add: CleanupItems_def CleanupItemsStartingAt_trace liveItems_append)

lemma Init_guard: "sInitialized s \<Longrightarrow> Init ls s = (False, s)"
  by (simp add: Init_def)

lemma Run_guard: "\<not> (sInitialized s \<and> \<not> sRunning s) \<Longrightarrow> Run B P env s = Some s"
  by (simp add: Run_def)

lemma Cleanup_guard: "\<not> (sInitialized s \<and> \<not> sRunning s) \<Longrightarrow> Cleanup ls s = s"
  by (simp add: Cleanup_def)

lemma RunLoop_frame:
  assumes "RunLoop B P env n s = Some s'"
  shows "calls s' = calls s \<and> sInitialized s' = sInitialized s \<and> \<not> sRunning s'"
proof -
  have "(\<lambda>t r. calls r = calls (snd t) \<and> sInitialized r = sInitialized (snd t) \<and> \<not> sRunning r)
          ((((B, P), env), n), s) s'"
  proof (rule RunLoop.raw_induct [OF _ assms])
    fix f :: "BallMembers \<Rightarrow> PaddleMembers \<Rightarrow> (nat \<Rightarrow> input) \<Rightarrow> nat \<Rightarrow> 'a State \<Rightarrow> 'a State option"
    fix B P env n s r
    assume IH: "\<And>B P env n s r. f B P env n s = Some r \<Longrightarrow>
        calls r = calls (snd ((((B, P), env), n), s)) \<and>
        sInitialized r = sInitialized (snd ((((B, P), env), n), s)) \<and> \<not> sRunning r"
    assume step: "(if sRunning s then f B P env (n + 1) (RunBody B P (env n) s) else Some s) = Some r"
    show "calls r = calls (snd ((((B, P), env), n), s)) \<and>
        sInitialized r = sInitialized (snd ((((B, P), env), n), s)) \<and> \<not> sRunning r"
    proof (cases "sRunning s")
      case True
      then have "f B P env (n + 1) (RunBody B P (env n) s) = Some r"
        using step by simp
      from IH [OF this] show ?thesis
        by (simp add: RunBody_frame)
    next
      case False
      then show ?thesis using step by auto
    qed
  qed
  then show ?thesis by simp
qed

lemma Run_frame:
  assumes "Run B P env s = Some s'" and "\<not> sRunning s"
  shows "calls s' = calls s \<and> sInitialized s' = sInitialized s \<and> \<not> sRunning s'"
proof (cases "sInitialized s")
  case False
  then show ?thesis using assms by (simp add: Run_def)
next
  case True
  then obtain r where r: "RunLoop B P env 0 (OnBeginRun B (s\<lparr>sRunning := True\<rparr>)) = Some r"
    and s': "s' = OnFinishRun r"
    using assms by (auto simp: Run_def split: option.splits)
  show ?thesis
    using RunLoop_frame [OF r] by (simp add: s' OnFinishRun_def addEvent_def OnBeginRun_frame)
qed

lemma Init_protocol:
  assumes "length ls < 2 ^ 31" and "protocol ls s"
  shows "protocol ls (snd (Init ls s))"
proof (cases "sInitialized s")
  case True
  then show ?thesis using assms(2) by (simp add: Init_def)
next
  case False
  then have live: "liveItems {} (calls s) = Some {}"
    using assms(2) by (simp add: protocol_def)
  obtain ok w tr where t: "TryInitItems ls (world s, calls s) = (ok, w, tr)"
    by (cases "TryInitItems ls (world s, calls s)") auto
  have "liveItems {} tr = Some (if ok then {0..<length ls} else {})"
    using TryInitItems_live [OF assms(1) live, of "world s"] t by simp
  then show ?thesis
    using False assms(2) t by (simp add: Init_def protocol_def)
qed

lemma Cleanup_protocol:
  assumes "length ls < 2 ^ 31" and "protocol ls s"
  shows "protocol ls (Cleanup ls s)"
proof (cases "sInitialized s")
  case False
  then show ?thesis using assms(2) by (simp add: Cleanup_def)
next
  case True
  then have live: "liveItems {} (calls s) = Some {0..<length ls}" and nr: "\<not> sRunning s"
    using assms(2) by (simp_all add: protocol_def)
  obtain w tr where t: "CleanupItems ls (world s, calls s) = (w, tr)"
    by (cases "CleanupItems ls (world s, calls s)") auto
  have "liveItems {} tr = Some {}"
    using CleanupItems_live [OF assms(1) live, of "world s"] t by simp
  then show ?thesis
    using True nr t by (simp add: Cleanup_def protocol_def)
qed

lemma apiStep_protocol:
  assumes "length ls < 2 ^ 31" and "protocol ls s" and "apiStep ls B P c s = Some s'"
  shows "protocol ls s'"
proof (cases c)
  case CallInit
  then show ?thesis using Init_protocol [OF assms(1,2)] assms(3) by simp
next
  case (CallRun env)
  then have "Run B P env s = Some s'" using assms(3) by simp
  from Run_frame [OF this] show ?thesis
    using assms(2) by (simp add: protocol_def)
next
  case CallCleanup
  then show ?thesis using Cleanup_protocol [OF assms(1,2)] assms(3) by simp
qed

lemma apiRun_protocol:
  assumes "length ls < 2 ^ 31"
  shows "protocol ls s \<Longrightarrow> apiRun ls B P cs s = Some s' \<Longrightarrow> protocol ls s'"
proof (induction cs arbitrary: s)
  case Nil
  then show ?case by simp
next
  case (Cons c cs)
  then obtain s1 where s1: "apiStep ls B P c s = Some s1" and rest: "apiRun ls B P cs s1 = Some s'"
    by (auto split: option.splits)
  show ?case
    using Cons.IH [OF apiStep_protocol [OF assms Cons.prems(1) s1] rest] .
qed


lemma Run_returns:
  assumes "\<not> pollResult (env 0)"
  shows "\<exists>s'. Run B P env s = Some s'"
proof (cases "sInitialized s \<and> \<not> sRunning s")
  case False
  then show ?thesis by (simp add: Run_def)
next
  case True
  have "sRunning (OnBeginRun B (s\<lparr>sRunning := True\<rparr>))"
    by (simp add: OnBeginRun_frame)
  from RunLoop_stops [OF this, of 0 env 0 B P] assms
  have "RunLoop B P env 0 (OnBeginRun B (s\<lparr>sRunning := True\<rparr>)) =
      Some (RunBodies B P env 0 (Suc 0) (OnBeginRun B (s\<lparr>sRunning := True\<rparr>)))"
    by simp
  then show ?thesis
    using True by (simp add: Run_def)
qed

text \<open>
  C10.  \<open>Init\<close> on an initialised game returns false and leaves the state, the record of
  calls included, as it is.  \<open>Run\<close> returns at once, with the state unchanged, unless the
  game is initialised and not running.  \<open>Cleanup\<close> leaves the state unchanged unless the game
  is initialised and not running; in particular it does nothing while \<open>sRunning\<close> is set.
  Consequently, after any sequence of calls of \<open>Init\<close>, \<open>Run\<close> and \<open>Cleanup\<close> that starts with
  nothing initialised and returns, no item was initialised while it was initialised or
  cleaned up while it was not, every item is initialised if \<open>sInitialized\<close> is set and none
  otherwise, and the loop is not running.
\<close>

theorem lifecycle_protocol:
  "(sInitialized s \<longrightarrow> Init ls s = (False, s))
   \<and> (\<not> (sInitialized s \<and> \<not> sRunning s) \<longrightarrow> Run B P env s = Some s)
   \<and> (\<not> (sInitialized s \<and> \<not> sRunning s) \<longrightarrow> Cleanup ls s = s)
   \<and> (length ls < 2 ^ 31 \<and> \<not> sInitialized s0 \<and> \<not> sRunning s0
        \<and> liveItems {} (calls s0) = Some {} \<and> apiRun ls B P cs s0 = Some s' \<longrightarrow>
        liveItems {} (calls s') = Some (if sInitialized s' then {0..<length ls} else {})
        \<and> \<not> sRunning s')"
proof -
  have "protocol ls s'"
    if "length ls < 2 ^ 31" and "\<not> sInitialized s0" and "\<not> sRunning s0"
      and "liveItems {} (calls s0) = Some {}" and "apiRun ls B P cs s0 = Some s'"
  proof -
    have "protocol ls s0"
      using that(2,3,4) by (simp add: protocol_def)
    then show ?thesis
      using apiRun_protocol [OF that(1) _ that(5)] by simp
  qed
  then show ?thesis
    using Init_guard [of s ls] Run_guard [of s B P env] Cleanup_guard [of s ls]
    unfolding protocol_def by blast
qed

theorem lifecycle_protocol_witness:
  "\<not> sInitialized freshState \<and> \<not> sRunning freshState
   \<and> sInitialized (snd (Init twoItems freshState))
   \<and> Init twoItems (snd (Init twoItems freshState)) = (False, snd (Init twoItems freshState))
   \<and> Run (SpecBall 400 25) stillPaddles quitAtOnce freshState = Some freshState
   \<and> Cleanup twoItems freshState = freshState
   \<and> (\<exists>s'. apiRun twoItems (SpecBall 400 25) stillPaddles
              [CallInit, CallInit, CallRun quitAtOnce, CallCleanup, CallCleanup] freshState
            = Some s'
          \<and> liveItems {} (calls s') = Some (if sInitialized s' then {0..<2} else {})
          \<and> \<not> sRunning s')"
proof -
  have f: "\<not> sInitialized freshState" "\<not> sRunning freshState"
    "liveItems {} (calls freshState) = Some {}"
    by (simp_all add: freshState_def)
  have two: "length twoItems < 2 ^ 31" "length twoItems = 2"
    by (simp_all add: twoItems_def)
  have "TryInitItems twoItems (world freshState, calls freshState) =
      (True, initWorld twoItems (length twoItems) (world freshState),
       calls freshState @ map (\<lambda>j. InitCall j True) [0..<length twoItems])"
    unfolding TryInitItems_def
    by (rule TryInitItemsLoop_ok [of 0 twoItems "world freshState" "calls freshState",
          simplified])
       (simp add: twoItems_def initOk_def less_Suc_eq)
  then have i1: "sInitialized (snd (Init twoItems freshState))"
    using f(1) by (simp add: Init_def)
  obtain s3 where s3: "Run (SpecBall 400 25) stillPaddles quitAtOnce
      (snd (Init twoItems freshState)) = Some s3"
    using Run_returns [where env = quitAtOnce and B = "SpecBall 400 25" and P = stillPaddles
        and s = "snd (Init twoItems freshState)"]
    by (auto simp: quitAtOnce_def)
  have run: "apiRun twoItems (SpecBall 400 25) stillPaddles
      [CallInit, CallInit, CallRun quitAtOnce, CallCleanup, CallCleanup] freshState =
      Some (Cleanup twoItems (Cleanup twoItems s3))"
    using i1 s3 by (simp add: Init_guard)
  note g = lifecycle_protocol [of "snd (Init twoItems freshState)" twoItems
      "SpecBall 400 25" stillPaddles quitAtOnce freshState
      "[CallInit, CallInit, CallRun quitAtOnce, CallCleanup, CallCleanup]"
      "Cleanup twoItems (Cleanup twoItems s3)"]
  note h = lifecycle_protocol [of freshState twoItems "SpecBall 400 25" stillPaddles quitAtOnce
      freshState "[]" freshState]
  have a: "Init twoItems (snd (Init twoItems freshState)) = (False, snd (Init twoItems freshState))"
    using g i1 by blast
  have b: "liveItems {} (calls (Cleanup twoItems (Cleanup twoItems s3))) =
        Some (if sInitialized (Cleanup twoItems (Cleanup twoItems s3)) then {0..<2} else {})
      \<and> \<not> sRunning (Cleanup twoItems (Cleanup twoItems s3))"
    using g two f run by simp
  have c: "Run (SpecBall 400 25) stillPaddles quitAtOnce freshState = Some freshState"
    "Cleanup twoItems freshState = freshState"
    using h f by blast+
  show ?thesis
    using f(1,2) i1 a b c run by blast
qed

section \<open>Properties of shader and program creation\<close>

lemma CreateShaderFromSource_compiled:
  assumes "type = gl_VertexShader \<or> type = gl_FragmentShader"
    and "compiledShader G type src g = (shader, g')"
    and "gl_GetShaderiv G shader gl_CompileStatus g' \<noteq> 0"
  shows "CreateShaderFromSource G type (Some src) (g, tr) =
           (shader, (g', tr @ [CreateShaderCall type shader, ShaderSourceCall shader src,
                               CompileShaderCall shader]))"
  using assms
  by (auto simp: CreateShaderFromSource_def compiledShader_def ShaderCompileFailed_def
      GetItemiv_def Let_def split: prod.splits)

lemma CreateShaderFromSource_failed:
  assumes "type = gl_VertexShader \<or> type = gl_FragmentShader"
    and "compiledShader G type src g = (shader, g')"
    and "gl_GetShaderiv G shader gl_CompileStatus g' = 0"
  shows "CreateShaderFromSource G type (Some src) (g, tr) =
           (0, (gl_DeleteShader G shader g',
                tr @ [CreateShaderCall type shader, ShaderSourceCall shader src,
                      CompileShaderCall shader, LogCall ''Shader info:'',
                      LogCall (gl_GetShaderInfoLog G shader
                                 (gl_GetShaderiv G shader gl_InfoLogLength g') g'),
                      DeleteShaderCall shader]))"
  using assms
  by (auto simp: CreateShaderFromSource_def compiledShader_def ShaderCompileFailed_def
      GetItemiv_def Let_def LogShaderInfo_def LogItemInfo_def Log_Log_def split: prod.splits)

lemma CreateProgramFromShaders_linked:
  assumes "vert \<noteq> 0" and "frag \<noteq> 0"
    and "linkedProgram G vert frag g = (program, g')"
    and "gl_GetProgramiv G program gl_LinkStatus g' \<noteq> 0"
  shows "CreateProgramFromShaders G vert frag (g, tr) =
           (program, (g', tr @ [CreateProgramCall program, AttachShaderCall program vert,
                                AttachShaderCall program frag, LinkProgramCall program]))"
  using assms
  by (auto simp: CreateProgramFromShaders_def linkedProgram_def ProgramLinkFailed_def
      GetItemiv_def Let_def split: prod.splits)

lemma CreateProgramFromShaders_failed:
  assumes "vert \<noteq> 0" and "frag \<noteq> 0"
    and "linkedProgram G vert frag g = (program, g')"
    and "gl_GetProgramiv G program gl_LinkStatus g' = 0"
  shows "CreateProgramFromShaders G vert frag (g, tr) =
           (0, (gl_DeleteProgram G program g',
                tr @ [CreateProgramCall program, AttachShaderCall program vert,
                      AttachShaderCall program frag, LinkProgramCall program,
                      LogCall ''Program info:'',
                      LogCall (gl_GetProgramInfoLog G program
                                 (gl_GetProgramiv G program gl_InfoLogLength g') g'),
                      DeleteProgramCall program]))"
  using assms
  by (auto simp: CreateProgramFromShaders_def linkedProgram_def ProgramLinkFailed_def
      GetItemiv_def Let_def LogProgramInfo_def LogItemInfo_def Log_Log_def split: prod.splits)

lemma toy_enums:
  "gl_InfoLogLength \<noteq> gl_CompileStatus" "gl_InfoLogLength \<noteq> gl_LinkStatus"
  by (simp_all add: gl_InfoLogLength_def gl_CompileStatus_def gl_LinkStatus_def)

text \<open>
  C9.  For a source that is not null and a type that is the vertex or the fragment type,
  \<open>CreateShaderFromSource\<close> returns a non-zero handle exactly when the collaborator created
  an object and reports that its compilation succeeded; then the handle is that object.
  When the collaborator reports that the compilation failed, the function logs
  \<open>Shader info:\<close> and the info log, deletes the object and returns zero, in this order.
  For two non-zero shaders \<open>CreateProgramFromShaders\<close> does the same with the link status,
  \<open>Program info:\<close> and the program object.
\<close>

theorem zero_is_the_failure_sentinel:
  assumes "type = gl_VertexShader \<or> type = gl_FragmentShader"
    and "compiledShader G type src g = (shader, g')"
    and "vert \<noteq> 0" and "frag \<noteq> 0"
    and "linkedProgram G vert frag h = (program, h')"
  shows "(fst (CreateShaderFromSource G type (Some src) (g, tr)) \<noteq> 0) =
           (shader \<noteq> 0 \<and> gl_GetShaderiv G shader gl_CompileStatus g' \<noteq> 0)
         \<and> (gl_GetShaderiv G shader gl_CompileStatus g' \<noteq> 0 \<longrightarrow>
              CreateShaderFromSource G type (Some src) (g, tr) =
                (shader, (g', tr @ [CreateShaderCall type shader, ShaderSourceCall shader src,
                                    CompileShaderCall shader])))
         \<and> (gl_GetShaderiv G shader gl_CompileStatus g' = 0 \<longrightarrow>
              CreateShaderFromSource G type (Some src) (g, tr) =
                (0, (gl_DeleteShader G shader g',
                     tr @ [CreateShaderCall type shader, ShaderSourceCall shader src,
                           CompileShaderCall shader, LogCall ''Shader info:'',
                           LogCall (gl_GetShaderInfoLog G shader
                                      (gl_GetShaderiv G shader gl_InfoLogLength g') g'),
                           DeleteShaderCall shader])))
         \<and> (fst (CreateProgramFromShaders G vert frag (h, tr)) \<noteq> 0) =
             (program \<noteq> 0 \<and> gl_GetProgramiv G program gl_LinkStatus h' \<noteq> 0)
         \<and> (gl_GetProgramiv G program gl_LinkStatus h' \<noteq> 0 \<longrightarrow>
              CreateProgramFromShaders G vert frag (h, tr) =
                (program, (h', tr @ [CreateProgramCall program, AttachShaderCall program vert,
                                     AttachShaderCall program frag, LinkProgramCall program])))
         \<and> (gl_GetProgramiv G program gl_LinkStatus h' = 0 \<longrightarrow>
              CreateProgramFromShaders G vert frag (h, tr) =
                (0, (gl_DeleteProgram G program h',
                     tr @ [CreateProgramCall program, AttachShaderCall program vert,
                           AttachShaderCall program frag, LinkProgramCall program,
                           LogCall ''Program info:'',
                           LogCall (gl_GetProgramInfoLog G program
                                      (gl_GetProgramiv G program gl_InfoLogLength h') h'),
                           DeleteProgramCall program])))"
proof -
  note sh_ok = CreateShaderFromSource_compiled [OF assms(1,2), of tr]
  note sh_no = CreateShaderFromSource_failed [OF assms(1,2), of tr]
  note pr_ok = CreateProgramFromShaders_linked [OF assms(3,4,5), of tr]
  note pr_no = CreateProgramFromShaders_failed [OF assms(3,4,5), of tr]
  have a: "(fst (CreateShaderFromSource G type (Some src) (g, tr)) \<noteq> 0) =
           (shader \<noteq> 0 \<and> gl_GetShaderiv G shader gl_CompileStatus g' \<noteq> 0)"
    using sh_ok sh_no by (cases "gl_GetShaderiv G shader gl_CompileStatus g' = 0") simp_all
  have b: "(fst (CreateProgramFromShaders G vert frag (h, tr)) \<noteq> 0) =
             (program \<noteq> 0 \<and> gl_GetProgramiv G program gl_LinkStatus h' \<noteq> 0)"
    using pr_ok pr_no by (cases "gl_GetProgramiv G program gl_LinkStatus h' = 0") simp_all
  show ?thesis
    using a b sh_ok sh_no pr_ok pr_no by blast
qed

theorem zero_is_the_failure_sentinel_witness:
  "CreateShaderFromSource toyGL gl_FragmentShader (Some ''void main() {'') (([], []), []) =
     (0, (([''void main() {''], []),
          [CreateShaderCall gl_FragmentShader 7, ShaderSourceCall 7 ''void main() {'',
           CompileShaderCall 7, LogCall ''Shader info:'', LogCall ''syntax error'',
           DeleteShaderCall 7]))
   \<and> CreateShaderFromSource toyGL gl_VertexShader (Some ''void main() {}'') (([], []), []) =
     (7, (([''void main() {}''], []),
          [CreateShaderCall gl_VertexShader 7, ShaderSourceCall 7 ''void main() {}'',
           CompileShaderCall 7]))
   \<and> CreateProgramFromShaders toyGL 7 7 (([], []), []) =
     (0, (([], [7, 7]),
          [CreateProgramCall 9, AttachShaderCall 9 7, AttachShaderCall 9 7,
           LinkProgramCall 9, LogCall ''Program info:'', LogCall ''link error'',
           DeleteProgramCall 9]))
   \<and> CreateProgramFromShaders toyGL 7 8 (([], []), []) =
     (9, (([], [8, 7]),
          [CreateProgramCall 9, AttachShaderCall 9 7, AttachShaderCall 9 8,
           LinkProgramCall 9]))"
proof -
  have bad: "compiledShader toyGL gl_FragmentShader ''void main() {'' ([], []) =
      (7, ([''void main() {''], []))"
    by (simp add: compiledShader_def toyGL_def)
  have good: "compiledShader toyGL gl_VertexShader ''void main() {}'' ([], []) =
      (7, ([''void main() {}''], []))"
    by (simp add: compiledShader_def toyGL_def)
  have same: "linkedProgram toyGL 7 7 ([], []) = (9, ([], [7, 7]))"
    by (simp add: linkedProgram_def toyGL_def)
  have pair: "linkedProgram toyGL 7 8 ([], []) = (9, ([], [8, 7]))"
    by (simp add: linkedProgram_def toyGL_def)
  have tf: "gl_FragmentShader = gl_VertexShader \<or> gl_FragmentShader = gl_FragmentShader"
    by simp
  have tv: "gl_VertexShader = gl_VertexShader \<or> gl_VertexShader = gl_FragmentShader"
    by simp
  have n: "(7 :: GLuint) \<noteq> 0" "(8 :: GLuint) \<noteq> 0"
    by simp_all
  note failing = zero_is_the_failure_sentinel [OF tf bad n(1) n(1) same, of "[]"]
  note passing = zero_is_the_failure_sentinel [OF tv good n pair, of "[]"]
  have a: "CreateShaderFromSource toyGL gl_FragmentShader (Some ''void main() {'') (([], []), []) =
     (0, (([''void main() {''], []),
          [CreateShaderCall gl_FragmentShader 7, ShaderSourceCall 7 ''void main() {'',
           CompileShaderCall 7, LogCall ''Shader info:'', LogCall ''syntax error'',
           DeleteShaderCall 7]))"
    using failing toy_enums by (simp add: toyGL_def)
  have b: "CreateProgramFromShaders toyGL 7 7 (([], []), []) =
     (0, (([], [7, 7]),
          [CreateProgramCall 9, AttachShaderCall 9 7, AttachShaderCall 9 7,
           LinkProgramCall 9, LogCall ''Program info:'', LogCall ''link error'',
           DeleteProgramCall 9]))"
    using failing toy_enums by (simp add: toyGL_def)
  have c: "CreateShaderFromSource toyGL gl_VertexShader (Some ''void main() {}'') (([], []), []) =
     (7, (([''void main() {}''], []),
          [CreateShaderCall gl_VertexShader 7, ShaderSourceCall 7 ''void main() {}'',
           CompileShaderCall 7]))"
    using passing by (simp add: toyGL_def)
  have d: "CreateProgramFromShaders toyGL 7 8 (([], []), []) =
     (9, (([], [8, 7]),
          [CreateProgramCall 9, AttachShaderCall 9 7, AttachShaderCall 9 8,
           LinkProgramCall 9]))"
    using passing by (simp add: toyGL_def)
  show ?thesis
    using a b c d by simp
qed

end
